theory Spec2Isabelle
  imports Main
begin

section \<open>JavaScript values\<close>

text \<open>
  Both services are Express handlers over parsed JSON bodies. A JavaScript number is
  modelled as \<open>int option\<close>: \<open>Some n\<close> is the integer-valued number \<open>n\<close>
  (a double: every integer up to \<open>2 ^ 53\<close> in size, and beyond it the integers with
  53 significant bits), \<open>None\<close> is \<open>NaN\<close>; fractional numbers and the
  infinities are not represented. A string is a list of code units below 256. An
  object is an association list of its own properties in insertion order.
\<close>

type_synonym number = "int option"

datatype jsval =
    JUndefined
  | JNull
  | JBool bool
  | JNum number
  | JStr string
  | JArr "jsval list"
  | JObj "(string \<times> jsval) list"

datatype js_error = TypeError string

text \<open>Arithmetic and comparison on numbers: every comparison with \<open>NaN\<close> is false.\<close>

definition num_sub :: "number \<Rightarrow> number \<Rightarrow> number" where
  "num_sub a b = (case a of None \<Rightarrow> None | Some x \<Rightarrow> (case b of None \<Rightarrow> None | Some y \<Rightarrow> Some (x - y)))"

definition num_lt :: "number \<Rightarrow> number \<Rightarrow> bool" where
  "num_lt a b = (case a of None \<Rightarrow> False | Some x \<Rightarrow> (case b of None \<Rightarrow> False | Some y \<Rightarrow> x < y))"

definition num_gt :: "number \<Rightarrow> number \<Rightarrow> bool" where
  "num_gt a b = num_lt b a"

definition num_eq :: "number \<Rightarrow> number \<Rightarrow> bool" where
  "num_eq a b = (case a of None \<Rightarrow> False | Some x \<Rightarrow> (case b of None \<Rightarrow> False | Some y \<Rightarrow> x = y))"

text \<open>Property lookup, as destructuring \<open>const { name } = req.body\<close> does it.\<close>

definition get_prop :: "(string \<times> jsval) list \<Rightarrow> string \<Rightarrow> jsval" where
  "get_prop obj k = (case map_of obj k of None \<Rightarrow> JUndefined | Some v \<Rightarrow> v)"

text \<open>\<open>!v\<close> is \<open>\<not> truthy v\<close>.\<close>

fun truthy :: "jsval \<Rightarrow> bool" where
  "truthy JUndefined = False"
| "truthy JNull = False"
| "truthy (JBool b) = b"
| "truthy (JNum None) = False"
| "truthy (JNum (Some n)) = (n \<noteq> 0)"
| "truthy (JStr s) = (s \<noteq> [])"
| "truthy (JArr xs) = True"
| "truthy (JObj ps) = True"

subsection \<open>Strings\<close>

text \<open>The decimal digits of a number that is not negative.\<close>

definition digit_char :: "int \<Rightarrow> char" where
  "digit_char d = char_of (48 + d)"

function digits :: "int \<Rightarrow> string" where
  "digits n = (if n < 10 then [digit_char n] else digits (n div 10) @ [digit_char (n mod 10)])"
  by pat_completeness auto
termination
  by (relation "measure nat") auto

declare digits.simps [simp del]

definition show_int :: "int \<Rightarrow> string" where
  "show_int i = (if i < 0 then CHR ''-'' # digits (- i) else digits i)"

text \<open>
  The double nearest to an integer (ties go to the even significand), for a result
  that is finite.
\<close>

function bit_length :: "int \<Rightarrow> nat" where
  "bit_length n = (if n \<le> 0 then 0 else Suc (bit_length (n div 2)))"
  by pat_completeness auto
termination
  by (relation "measure nat") auto

declare bit_length.simps [simp del]

definition to_double :: "int \<Rightarrow> int" where
  "to_double n =
     (let a = \<bar>n\<bar>;
          sh = bit_length a - 53;
          q = a div 2 ^ sh;
          r = a mod 2 ^ sh;
          q' = (if 2 * r > 2 ^ sh \<or> (2 * r = 2 ^ sh \<and> odd q) then q + 1 else q)
      in sgn n * (q' * 2 ^ sh))"

text \<open>
  The text of a number (\<open>Number::toString\<close>). Up to \<open>2 ^ 53\<close> it is the decimal
  digits. Beyond, it is the decimal with the fewest significant digits that still rounds
  to the number, the one nearest to it if there are several; it is written in full when
  it has at most 21 digits and with an exponent otherwise. \<open>inside\<close> tests the
  rounding interval of the number, whose ends are given in quarters; \<open>shortest\<close>
  tries the multiples of the powers of ten from the largest down.
\<close>

definition inside :: "int \<Rightarrow> int \<Rightarrow> bool \<Rightarrow> int \<Rightarrow> bool" where
  "inside lo hi closed c = (if closed then lo \<le> 4 * c \<and> 4 * c \<le> hi else lo < 4 * c \<and> 4 * c < hi)"

fun shortest :: "int \<Rightarrow> int \<Rightarrow> int \<Rightarrow> bool \<Rightarrow> nat \<Rightarrow> int" where
  "shortest n lo hi closed 0 = n"
| "shortest n lo hi closed (Suc p) =
     (let u = 10 ^ Suc p;
          c1 = (n div u) * u;
          c2 = c1 + u;
          in1 = inside lo hi closed c1;
          in2 = inside lo hi closed c2
      in if in1 \<and> in2
         then (if n - c1 < c2 - n then c1
               else if c2 - n < n - c1 then c2
               else if even (c1 div u) then c1 else c2)
         else if in1 then c1
         else if in2 then c2
         else shortest n lo hi closed p)"

definition double_text :: "int \<Rightarrow> string" where
  "double_text a =
     (if a \<le> 2 ^ 53 then digits a
      else
        (let sh = bit_length a - 53;
             m = a div 2 ^ sh;
             lo = 4 * a - (if m = 2 ^ 52 then 2 ^ sh else 2 * 2 ^ sh);
             hi = 4 * a + 2 * 2 ^ sh;
             ds = digits (shortest a lo hi (even m) (length (digits a)));
             nn = length ds
         in if nn \<le> 21 then ds
            else
              (case rev (dropWhile (\<lambda>c. c = CHR ''0'') (rev ds)) of
                 [] \<Rightarrow> ds
               | d # rest \<Rightarrow>
                   d # (if rest = [] then [] else CHR ''.'' # rest) @ ''e+'' @ digits (int nn - 1))))"

definition number_text :: "number \<Rightarrow> string" where
  "number_text x =
     (case x of
        None \<Rightarrow> ''NaN''
      | Some n \<Rightarrow> (if n < 0 then CHR ''-'' # double_text (- n) else double_text n))"

fun join_with :: "string \<Rightarrow> string list \<Rightarrow> string" where
  "join_with sep [] = []"
| "join_with sep [x] = x"
| "join_with sep (x # y # ys) = x @ sep @ join_with sep (y # ys)"

text \<open>The results of a list of steps, or the first error among them.\<close>

fun collect :: "(js_error + 'a) list \<Rightarrow> js_error + 'a list" where
  "collect [] = Inr []"
| "collect (x # xs) =
     (case x of
        Inl err \<Rightarrow> Inl err
      | Inr v \<Rightarrow> (case collect xs of Inl err \<Rightarrow> Inl err | Inr vs \<Rightarrow> Inr (v # vs)))"

text \<open>
  \<open>ToString\<close>, the coercion \<open>RegExp.prototype.test\<close> and \<open>parseInt\<close> apply to their
  argument, and \<open>new Date\<close> to an object. An array joins its elements with commas,
  \<open>null\<close> and \<open>undefined\<close> elements giving the empty string. An object parsed from
  JSON has the inherited \<open>toString\<close> unless it has a property of that name of its
  own, which is never a function: then no conversion applies and a TypeError is thrown.
\<close>

fun ToString :: "jsval \<Rightarrow> js_error + string" where
  "ToString JUndefined = Inr ''undefined''"
| "ToString JNull = Inr ''null''"
| "ToString (JBool b) = Inr (if b then ''true'' else ''false'')"
| "ToString (JNum x) = Inr (number_text x)"
| "ToString (JStr s) = Inr s"
| "ToString (JArr xs) =
     (case collect (map (\<lambda>x. if x = JNull \<or> x = JUndefined then Inr [] else ToString x) xs) of
        Inl err \<Rightarrow> Inl err
      | Inr texts \<Rightarrow> Inr (join_with '','' texts))"
| "ToString (JObj ps) =
     (if map_of ps ''toString'' = None then Inr ''[object Object]''
      else Inl (TypeError ''Cannot convert object to primitive value''))"

text \<open>White space and line terminators (the class \<open>\s\<close>, and what \<open>trim\<close> strips).\<close>

definition js_space :: "char \<Rightarrow> bool" where
  "js_space c = (of_char c \<in> set [9, 10, 11, 12, 13, 32, 160 :: nat])"

definition is_letter :: "char \<Rightarrow> bool" where
  "is_letter c = ((97 \<le> (of_char c :: nat) \<and> (of_char c :: nat) \<le> 122)
                \<or> (65 \<le> (of_char c :: nat) \<and> (of_char c :: nat) \<le> 90))"

definition is_digit :: "char \<Rightarrow> bool" where
  "is_digit c = (48 \<le> (of_char c :: nat) \<and> (of_char c :: nat) \<le> 57)"

definition trim :: "string \<Rightarrow> string" where
  "trim s = rev (dropWhile js_space (rev (dropWhile js_space s)))"

definition lower_char :: "char \<Rightarrow> char" where
  "lower_char c =
     (let n = (of_char c :: nat)
      in if (65 \<le> n \<and> n \<le> 90) \<or> (192 \<le> n \<and> n \<le> 222 \<and> n \<noteq> 215) then char_of (n + 32) else c)"

definition upper_char :: "char \<Rightarrow> char" where
  "upper_char c =
     (let n = (of_char c :: nat)
      in if (97 \<le> n \<and> n \<le> 122) \<or> (224 \<le> n \<and> n \<le> 254 \<and> n \<noteq> 247) then char_of (n - 32) else c)"

definition toLowerCase :: "string \<Rightarrow> string" where
  "toLowerCase s = map lower_char s"

definition toUpperCase :: "string \<Rightarrow> string" where
  "toUpperCase s = map upper_char s"

text \<open>
  A string function called on a value: only strings have \<open>trim\<close>, \<open>toLowerCase\<close> and
  \<open>toUpperCase\<close>; on any other value parsed from JSON the property is not a function and
  the call throws a TypeError. The first argument is the text of the receiver expression,
  which the error message quotes.
\<close>

definition call_trim :: "string \<Rightarrow> jsval \<Rightarrow> js_error + string" where
  "call_trim x v =
     (case v of JStr s \<Rightarrow> Inr (trim s) | _ \<Rightarrow> Inl (TypeError (x @ ''.trim is not a function'')))"

definition call_toLowerCase :: "string \<Rightarrow> jsval \<Rightarrow> js_error + string" where
  "call_toLowerCase x v =
     (case v of JStr s \<Rightarrow> Inr (toLowerCase s)
      | _ \<Rightarrow> Inl (TypeError (x @ ''.toLowerCase is not a function'')))"

definition call_toUpperCase :: "string \<Rightarrow> jsval \<Rightarrow> js_error + string" where
  "call_toUpperCase x v =
     (case v of JStr s \<Rightarrow> Inr (toUpperCase s)
      | _ \<Rightarrow> Inl (TypeError (x @ ''.toUpperCase is not a function'')))"

text \<open>The message of a thrown error, as the responses quote it.\<close>

definition error_message :: "js_error \<Rightarrow> string" where
  "error_message err = (case err of TypeError m \<Rightarrow> m)"

section \<open>Dates\<close>

text \<open>
  A Date holds a time value: milliseconds since the epoch in UTC, or \<open>NaN\<close> (an invalid
  date). The getters \<open>getFullYear\<close>, \<open>getMonth\<close> and \<open>getDate\<close> read the fields of
  the \<^emph>\<open>local\<close> time, which is the time value plus the zone's offset at that instant.
  The environment of a handler gives the string parser of \<open>new Date(string)\<close> (whose
  accepted formats beyond the ISO ones depend on the engine), the zone offset in
  milliseconds at an instant (negative west of UTC), the clock, and the message the
  store gives a validation error with these invalid paths (its wording is the store's).
\<close>

record env =
  parseDate :: "string \<Rightarrow> number"
  localTZA :: "int \<Rightarrow> int"
  now :: int
  validationText :: "string list \<Rightarrow> string"

definition msPerDay :: int where
  "msPerDay = 86400000"

text \<open>The proleptic Gregorian date \<open>(year, month from 0, day of month)\<close> of a day number.\<close>

definition civil_from_days :: "int \<Rightarrow> int \<times> int \<times> int" where
  "civil_from_days z0 =
     (let z = z0 + 719468;
          era = z div 146097;
          doe = z - era * 146097;
          yoe = (doe - doe div 1460 + doe div 36524 - doe div 146096) div 365;
          y = yoe + era * 400;
          doy = doe - (365 * yoe + yoe div 4 - yoe div 100);
          mp = (5 * doy + 2) div 153;
          d = doy - (153 * mp + 2) div 5 + 1;
          m = (if mp < 10 then mp + 3 else mp - 9)
      in (if m \<le> 2 then y + 1 else y, m - 1, d))"

definition days_from_civil :: "int \<Rightarrow> int \<Rightarrow> int \<Rightarrow> int" where
  "days_from_civil y0 m d =
     (let y = (if m \<le> 2 then y0 - 1 else y0);
          era = y div 400;
          yoe = y - era * 400;
          doy = (153 * (if m > 2 then m - 3 else m + 9) + 2) div 5 + d - 1;
          doe = yoe * 365 + yoe div 4 - yoe div 100 + doy
      in era * 146097 + doe - 719468)"

text \<open>
  \<open>new Date(v)\<close>: a string is parsed, a number is the time value when it is in the
  range of dates, and an array or object is first converted to its text, which can throw.
\<close>

definition newDate :: "env \<Rightarrow> jsval \<Rightarrow> js_error + number" where
  "newDate e v =
     (case v of
        JStr s \<Rightarrow> Inr (parseDate e s)
      | JUndefined \<Rightarrow> Inr None
      | JNull \<Rightarrow> Inr (Some 0)
      | JBool b \<Rightarrow> Inr (Some (if b then 1 else 0))
      | JNum None \<Rightarrow> Inr None
      | JNum (Some n) \<Rightarrow> Inr (if \<bar>n\<bar> \<le> 8640000000000000 then Some n else None)
      | JArr xs \<Rightarrow> (case ToString v of Inl err \<Rightarrow> Inl err | Inr s \<Rightarrow> Inr (parseDate e s))
      | JObj ps \<Rightarrow> (case ToString v of Inl err \<Rightarrow> Inl err | Inr s \<Rightarrow> Inr (parseDate e s)))"

definition localFields :: "env \<Rightarrow> int \<Rightarrow> int \<times> int \<times> int" where
  "localFields e t = civil_from_days ((t + localTZA e t) div msPerDay)"

definition getFullYear :: "env \<Rightarrow> number \<Rightarrow> number" where
  "getFullYear e d = (case d of None \<Rightarrow> None | Some t \<Rightarrow> Some (fst (localFields e t)))"

definition getMonth :: "env \<Rightarrow> number \<Rightarrow> number" where
  "getMonth e d = (case d of None \<Rightarrow> None | Some t \<Rightarrow> Some (fst (snd (localFields e t))))"

definition getDate :: "env \<Rightarrow> number \<Rightarrow> number" where
  "getDate e d = (case d of None \<Rightarrow> None | Some t \<Rightarrow> Some (snd (snd (localFields e t))))"

section \<open>The Validation and Dispatch API (main-app/app.js)\<close>

text \<open>
  The three functions of the source. Each returns its value, or the error thrown while
  its argument is converted.
\<close>

definition calculateAge :: "env \<Rightarrow> jsval \<Rightarrow> js_error + number" where
  "calculateAge e dob =
     (case newDate e dob of
        Inl err \<Rightarrow> Inl err
      | Inr birthDate \<Rightarrow>
          Inr (let today = Some (now e);
                   age = num_sub (getFullYear e today) (getFullYear e birthDate);
                   monthDiff = num_sub (getMonth e today) (getMonth e birthDate)
               in if num_lt monthDiff (Some 0)
                     \<or> (num_eq monthDiff (Some 0) \<and> num_lt (getDate e today) (getDate e birthDate))
                  then num_sub age (Some 1)
                  else age))"

definition validateName :: "jsval \<Rightarrow> js_error + bool" where
  "validateName name =
     (case ToString name of
        Inl err \<Rightarrow> Inl err
      | Inr s \<Rightarrow> Inr (s \<noteq> [] \<and> list_all (\<lambda>c. is_letter c \<or> js_space c) s))"

definition validateMobile :: "jsval \<Rightarrow> js_error + bool" where
  "validateMobile mobile =
     (case ToString mobile of
        Inl err \<Rightarrow> Inl err
      | Inr [] \<Rightarrow> Inr False
      | Inr (c # cs) \<Rightarrow> Inr (c \<in> set ''6789'' \<and> length cs = 9 \<and> list_all is_digit cs))"

subsection \<open>Formatting the clock: \<open>toISOString\<close>\<close>

definition pad :: "nat \<Rightarrow> int \<Rightarrow> string" where
  "pad w n = replicate (w - length (digits n)) CHR ''0'' @ digits n"

definition toISOString :: "int \<Rightarrow> string" where
  "toISOString t =
     (let ymd = civil_from_days (t div msPerDay);
          y = fst ymd;
          ms = t mod msPerDay;
          year = (if 0 \<le> y \<and> y \<le> 9999 then pad 4 y
                  else (if y < 0 then ''-'' else ''+'') @ pad 6 \<bar>y\<bar>)
      in year @ ''-'' @ pad 2 (fst (snd ymd) + 1) @ ''-'' @ pad 2 (snd (snd ymd))
         @ ''T'' @ pad 2 (ms div 3600000) @ '':'' @ pad 2 (ms mod 3600000 div 60000)
         @ '':'' @ pad 2 (ms mod 60000 div 1000) @ ''.'' @ pad 3 (ms mod 1000) @ ''Z'')"

subsection \<open>The HTTP client (axios)\<close>

text \<open>
  What the handler hands to the transport. \<open>axios.post\<close> and \<open>axios.put\<close> take
  \<open>(url, data, config)\<close>; \<open>axios.delete\<close> takes \<open>(url, config)\<close>: its request body is
  the \<open>data\<close> property of that second argument, and a third argument is not read.
  The handler calls all three with the same three arguments.
\<close>

datatype verb = POST | PUT | DELETE

record http_request =
  rq_verb :: verb
  rq_url :: string
  rq_data :: jsval
  rq_config :: jsval

definition member :: "jsval \<Rightarrow> string \<Rightarrow> jsval" where
  "member v k = (case v of JObj ps \<Rightarrow> get_prop ps k | _ \<Rightarrow> JUndefined)"

definition axios_post :: "string \<Rightarrow> jsval \<Rightarrow> jsval \<Rightarrow> http_request" where
  "axios_post url data config = \<lparr>rq_verb = POST, rq_url = url, rq_data = data, rq_config = config\<rparr>"

definition axios_put :: "string \<Rightarrow> jsval \<Rightarrow> jsval \<Rightarrow> http_request" where
  "axios_put url data config = \<lparr>rq_verb = PUT, rq_url = url, rq_data = data, rq_config = config\<rparr>"

definition axios_delete :: "string \<Rightarrow> jsval \<Rightarrow> jsval \<Rightarrow> http_request" where
  "axios_delete url config unread =
     \<lparr>rq_verb = DELETE, rq_url = url, rq_data = member config ''data'', rq_config = config\<rparr>"

text \<open>
  The body as the receiving Express application sees it in \<open>req.body\<close>: the JSON text of
  the data parsed back (a \<open>NaN\<close> is written as \<open>null\<close>, a property holding
  \<open>undefined\<close> is left out), and the empty object when the request carries no body.
\<close>

fun json_value :: "jsval \<Rightarrow> jsval" where
  "json_value (JNum None) = JNull"
| "json_value JUndefined = JNull"
| "json_value (JArr xs) = JArr (map json_value xs)"
| "json_value (JObj ps) =
     JObj (map (\<lambda>(k, v). (k, json_value v)) (filter (\<lambda>(k, v). v \<noteq> JUndefined) ps))"
| "json_value v = v"

definition received_body :: "http_request \<Rightarrow> (string \<times> jsval) list" where
  "received_body rq = (case json_value (rq_data rq) of JObj ps \<Rightarrow> ps | _ \<Rightarrow> [])"

subsection \<open>The handler of \<open>POST /api/post\<close>\<close>

record response =
  status :: nat
  json :: "(string \<times> jsval) list"

definition RECEIVER_SERVICE_URL :: string where
  "RECEIVER_SERVICE_URL = ''http://localhost:5000''"

definition validActions :: "string list" where
  "validActions = [''create'', ''update'', ''delete'']"

definition missing_field :: "jsval \<Rightarrow> jsval \<Rightarrow> jsval \<Rightarrow> jsval \<Rightarrow> bool" where
  "missing_field name mobile dob action =
     (\<not> truthy name \<or> \<not> truthy mobile \<or> \<not> truthy dob \<or> \<not> truthy action)"

definition age_out_of_range :: "number \<Rightarrow> bool" where
  "age_out_of_range age = (num_lt age (Some 0) \<or> num_gt age (Some 150))"

definition bad_request :: "string \<Rightarrow> response" where
  "bad_request msg = \<lparr>status = 400, json = [(''success'', JBool False), (''message'', JStr msg)]\<rparr>"

definition internal_error :: "js_error \<Rightarrow> response" where
  "internal_error err =
     \<lparr>status = 500,
      json = [(''success'', JBool False),
              (''message'', JStr ''Internal server error while processing form data''),
              (''error'', JStr (error_message err))]\<rparr>"

definition processedData ::
  "env \<Rightarrow> jsval \<Rightarrow> jsval \<Rightarrow> jsval \<Rightarrow> number \<Rightarrow> jsval \<Rightarrow> js_error + (string \<times> jsval) list" where
  "processedData e name mobile dob age action =
     (case call_trim ''name'' name of
        Inl err \<Rightarrow> Inl err
      | Inr n \<Rightarrow>
          (case call_trim ''mobile'' mobile of
             Inl err \<Rightarrow> Inl err
           | Inr m \<Rightarrow>
               (case call_toLowerCase ''action'' action of
                  Inl err \<Rightarrow> Inl err
                | Inr a \<Rightarrow>
                    Inr [(''name'', JStr n), (''mobile'', JStr m), (''dob'', dob),
                         (''age'', JNum age), (''action'', JStr (trim a)),
                         (''processedAt'', JStr (toISOString (now e)))])))"

text \<open>The \<open>switch\<close> on the lower-cased action: the client function and its name.\<close>

definition httpMethod :: "string \<Rightarrow> ((string \<Rightarrow> jsval \<Rightarrow> jsval \<Rightarrow> http_request) \<times> string) option" where
  "httpMethod a =
     (if a = ''create'' then Some (axios_post, ''POST'')
      else if a = ''update'' then Some (axios_put, ''PUT'')
      else if a = ''delete'' then Some (axios_delete, ''DELETE'')
      else None)"

definition request_config :: jsval where
  "request_config =
     JObj [(''headers'', JObj [(''Content-Type'', JStr ''application/json'')]),
           (''timeout'', JNum (Some 10000))]"

definition forwarded_ok :: "string \<Rightarrow> string \<Rightarrow> (string \<times> jsval) list \<Rightarrow> jsval \<Rightarrow> response" where
  "forwarded_ok upper name pd data =
     \<lparr>status = 200,
      json = [(''success'', JBool True),
              (''message'', JStr (''Form data validated, processed, and '' @ upper
                                   @ '' action completed successfully in MongoDB'')),
              (''httpMethod'', JStr name),
              (''processedData'', JObj pd),
              (''mongoResponse'', data)]\<rparr>"

definition forward_failed :: "string \<Rightarrow> (string \<times> jsval) list \<Rightarrow> string \<Rightarrow> response" where
  "forward_failed name pd msg =
     \<lparr>status = 502,
      json = [(''success'', JBool False),
              (''message'', JStr (''Data processed successfully but failed to send '' @ name
                                   @ '' request to MongoDB receiver service'')),
              (''error'', JStr msg),
              (''processedData'', JObj pd)]\<rparr>"

text \<open>
  The handler. \<open>downstream\<close> is the Persistence API as the client sees it: the
  response data of a 2xx answer, or the message of the error the call rejects with
  (a time-out, a refused connection, any other status). The result is the response
  and the request that was sent to the Persistence API, if one was. An error thrown by
  \<open>calculateAge\<close> is caught with the range check and answers 400; any other error
  thrown before the request is sent reaches the outer \<open>catch\<close>, which answers 500;
  one thrown after the answer arrived reaches the inner \<open>catch\<close>, which answers 502.
  The clock is read once for the whole request.
\<close>

definition api_post ::
  "env \<Rightarrow> (http_request \<Rightarrow> string + jsval) \<Rightarrow> (string \<times> jsval) list
     \<Rightarrow> response \<times> http_request option" where
  "api_post e downstream body =
     (let name = get_prop body ''name'';
          mobile = get_prop body ''mobile'';
          dob = get_prop body ''dob'';
          action = get_prop body ''action''
      in if missing_field name mobile dob action
         then (bad_request ''All fields (name, mobile, dob, action) are required'', None)
         else
           (case validateName name of
              Inl err \<Rightarrow> (internal_error err, None)
            | Inr valid_name \<Rightarrow>
                if \<not> valid_name
                then (bad_request ''Name should contain only letters (a-zA-Z) and spaces'', None)
                else
                  (case validateMobile mobile of
                     Inl err \<Rightarrow> (internal_error err, None)
                   | Inr valid_mobile \<Rightarrow>
                       if \<not> valid_mobile
                       then (bad_request ''Mobile number should be 10 digits starting with 6, 7, 8, or 9'',
                             None)
                       else
                         (case calculateAge e dob of
                            Inl dobError \<Rightarrow>
                              (bad_request ''Invalid date of birth format or unrealistic age'', None)
                          | Inr age \<Rightarrow>
                              if age_out_of_range age
                              then (bad_request ''Invalid date of birth format or unrealistic age'', None)
                              else
                                (case call_toLowerCase ''action'' action of
                                   Inl err \<Rightarrow> (internal_error err, None)
                                 | Inr a \<Rightarrow>
                                     if a \<notin> set validActions
                                     then (bad_request
                                             ''Invalid action. Must be create, update, or delete.'', None)
                                     else
                                       (case processedData e name mobile dob age action of
                                          Inl err \<Rightarrow> (internal_error err, None)
                                        | Inr pd \<Rightarrow>
                                            (case httpMethod a of
                                               None \<Rightarrow> (bad_request ''Invalid action specified'', None)
                                             | Some (send, httpMethodName) \<Rightarrow>
                                                 (let rq = send (RECEIVER_SERVICE_URL @ ''/api/postdata/db'')
                                                                (JObj pd) request_config
                                                  in case downstream rq of
                                                       Inl msg \<Rightarrow>
                                                         (forward_failed httpMethodName pd msg, Some rq)
                                                     | Inr data \<Rightarrow>
                                                         (case call_toUpperCase ''action'' action of
                                                            Inl err \<Rightarrow>
                                                              (forward_failed httpMethodName pd
                                                                 (error_message err), Some rq)
                                                          | Inr upper \<Rightarrow>
                                                              (forwarded_ok upper httpMethodName pd data,
                                                               Some rq))))))))))"

subsection \<open>A concrete environment\<close>

text \<open>
  The date-only form \<open>YYYY-MM-DD\<close> of the ECMAScript date-time string format, which
  every engine reads as midnight UTC of that day. It serves to run the handlers on
  concrete requests; the handlers themselves take any parser.
\<close>

definition digit_val :: "char \<Rightarrow> int" where
  "digit_val c = int (of_char c) - 48"

definition parse_digits :: "string \<Rightarrow> int option" where
  "parse_digits s =
     (if s \<noteq> [] \<and> list_all is_digit s then Some (foldl (\<lambda>a c. 10 * a + digit_val c) 0 s) else None)"

definition days_in_month :: "int \<Rightarrow> int \<Rightarrow> int" where
  "days_in_month y m =
     (if m = 2 then (if y mod 4 = 0 \<and> (y mod 100 \<noteq> 0 \<or> y mod 400 = 0) then 29 else 28)
      else if m = 4 \<or> m = 6 \<or> m = 9 \<or> m = 11 then 30 else 31)"

definition parse_iso_date :: "string \<Rightarrow> number" where
  "parse_iso_date s =
     (if length s = 10 \<and> s ! 4 = CHR ''-'' \<and> s ! 7 = CHR ''-''
      then (case parse_digits (take 4 s) of
              None \<Rightarrow> None
            | Some y \<Rightarrow>
                (case parse_digits (take 2 (drop 5 s)) of
                   None \<Rightarrow> None
                 | Some m \<Rightarrow>
                     (case parse_digits (drop 8 s) of
                        None \<Rightarrow> None
                      | Some d \<Rightarrow>
                          if 1 \<le> m \<and> m \<le> 12 \<and> 1 \<le> d \<and> d \<le> days_in_month y m
                          then Some (days_from_civil y m d * msPerDay)
                          else None)))
      else None)"

text \<open>The form \<open>YYYY-MM-DDTHH:mm:ss.sssZ\<close>, which \<open>toISOString\<close> writes.\<close>

definition parse_iso_datetime :: "string \<Rightarrow> number" where
  "parse_iso_datetime s =
     (if length s = 24 \<and> s ! 10 = CHR ''T'' \<and> s ! 13 = CHR '':'' \<and> s ! 16 = CHR '':''
         \<and> s ! 19 = CHR ''.'' \<and> s ! 23 = CHR ''Z''
      then (case parse_iso_date (take 10 s) of
              None \<Rightarrow> None
            | Some day \<Rightarrow>
                (case parse_digits (take 2 (drop 11 s)) of
                   None \<Rightarrow> None
                 | Some h \<Rightarrow>
                     (case parse_digits (take 2 (drop 14 s)) of
                        None \<Rightarrow> None
                      | Some mi \<Rightarrow>
                          (case parse_digits (take 2 (drop 17 s)) of
                             None \<Rightarrow> None
                           | Some sec \<Rightarrow>
                               (case parse_digits (take 3 (drop 20 s)) of
                                  None \<Rightarrow> None
                                | Some ms \<Rightarrow>
                                    if h \<le> 23 \<and> mi \<le> 59 \<and> sec \<le> 59
                                    then Some (day + h * 3600000 + mi * 60000 + sec * 1000 + ms)
                                    else None)))))
      else None)"

definition parse_iso :: "string \<Rightarrow> number" where
  "parse_iso s = (if length s = 10 then parse_iso_date s else parse_iso_datetime s)"

text \<open>
  An environment with a fixed zone offset and clock. The wording of the store's
  validation message is the library's; here it names the invalid paths.
\<close>

definition iso_env :: "int \<Rightarrow> int \<Rightarrow> env" where
  "iso_env tz t =
     \<lparr>parseDate = parse_iso, localTZA = (\<lambda>_. tz), now = t,
      validationText = (\<lambda>paths. ''FormData validation failed: '' @ join_with '', '' paths)\<rparr>"

section \<open>The Persistence API (receiver-service/server.js)\<close>

subsection \<open>The store\<close>

text \<open>
  The collection is the list of its documents in insertion order, so a lookup finds the
  oldest match. A document is identified by its position; \<open>doc_id\<close> is the
  identifier the driver gave it. Dates are time values.
\<close>

record doc =
  doc_id :: nat
  doc_name :: string
  doc_mobile :: string
  doc_dob :: string
  doc_age :: int
  doc_action :: string
  doc_processedAt :: int
  createdAt :: int
  updatedAt :: int

text \<open>The argument of \<open>new FormData({...})\<close>, and of the assignments to a found document.\<close>

record candidate =
  c_name :: string
  c_mobile :: string
  c_dob :: jsval
  c_age :: number
  c_action :: string
  c_processedAt :: number

text \<open>
  \<open>FormDataSchema\<close>. A \<open>String\<close> path casts a number or a boolean to its text, a
  document-like object to its string \<open>_id\<close>, and fails on an array or another object;
  \<open>trim: true\<close> trims the value; \<open>required: true\<close> refuses an absent value and the
  empty string. A \<open>Number\<close> path fails to cast \<open>NaN\<close>, a \<open>Date\<close> path an invalid
  date. A path that fails is reported when the document is saved.
\<close>

definition castString :: "jsval \<Rightarrow> string option" where
  "castString v =
     (case v of
        JUndefined \<Rightarrow> None
      | JNull \<Rightarrow> None
      | JStr s \<Rightarrow> Some s
      | JNum n \<Rightarrow> Some (number_text n)
      | JBool b \<Rightarrow> Some (if b then ''true'' else ''false'')
      | JArr xs \<Rightarrow> None
      | JObj ps \<Rightarrow> (case get_prop ps ''_id'' of JStr i \<Rightarrow> (if i = [] then None else Some i) | _ \<Rightarrow> None))"

definition invalid_paths :: "candidate \<Rightarrow> string list" where
  "invalid_paths c =
     (if trim (c_name c) = [] then [''name''] else [])
     @ (if trim (c_mobile c) = [] then [''mobile''] else [])
     @ (case castString (c_dob c) of None \<Rightarrow> [''dob''] | Some s \<Rightarrow> (if s = [] then [''dob''] else []))
     @ (if c_age c = None then [''age''] else [])
     @ (if trim (c_action c) = [] then [''action''] else [])
     @ (if c_processedAt c = None then [''processedAt''] else [])"

text \<open>
  \<open>save\<close> of a new document: validation, then the insert with both store timestamps.
  A failed validation rejects with the invalid paths.
\<close>

definition save_new :: "env \<Rightarrow> nat \<Rightarrow> doc list \<Rightarrow> candidate \<Rightarrow> string list + (doc \<times> doc list)" where
  "save_new e oid docs c =
     (if invalid_paths c \<noteq> [] then Inl (invalid_paths c)
      else
        (let d = \<lparr>doc_id = oid, doc_name = trim (c_name c), doc_mobile = trim (c_mobile c),
                  doc_dob = the (castString (c_dob c)), doc_age = the (c_age c),
                  doc_action = trim (c_action c), doc_processedAt = the (c_processedAt c),
                  createdAt = now e, updatedAt = now e\<rparr>
         in Inr (d, docs @ [d])))"

text \<open>\<open>findOne({ mobile: m })\<close>: the position of the first document with that mobile.\<close>

fun findOne :: "string \<Rightarrow> doc list \<Rightarrow> nat option" where
  "findOne m [] = None"
| "findOne m (d # ds) = (if doc_mobile d = m then Some 0 else map_option Suc (findOne m ds))"

text \<open>
  \<open>save\<close> of a found document after the five assignments: validation, then the
  update. The modification timestamp is set when an assignment changed a value.
\<close>

definition save_existing :: "env \<Rightarrow> doc list \<Rightarrow> nat \<Rightarrow> candidate \<Rightarrow> string list + (doc \<times> doc list)" where
  "save_existing e docs i c =
     (if invalid_paths c \<noteq> [] then Inl (invalid_paths c)
      else
        (let old = docs ! i;
             d = old\<lparr>doc_name := trim (c_name c), doc_dob := the (castString (c_dob c)),
                     doc_age := the (c_age c), doc_action := trim (c_action c),
                     doc_processedAt := the (c_processedAt c)\<rparr>;
             d' = (if d = old then old else d\<lparr>updatedAt := now e\<rparr>)
         in Inr (d', docs[i := d'])))"

text \<open>\<open>findOneAndDelete({ mobile: m })\<close>: the removed document and the rest, if one matches.\<close>

definition findOneAndDelete :: "string \<Rightarrow> doc list \<Rightarrow> (doc \<times> doc list) option" where
  "findOneAndDelete m docs =
     (case findOne m docs of
        None \<Rightarrow> None
      | Some i \<Rightarrow> Some (docs ! i, take i docs @ drop (Suc i) docs))"

subsection \<open>The handlers\<close>

text \<open>
  \<open>parseInt\<close> of a value: its text without leading white space, an optional sign, an
  optional \<open>0x\<close> prefix, then the longest run of digits, whose value is rounded to a
  double; \<open>NaN\<close> when there is none. Taking the text can throw.
\<close>

definition is_hex_digit :: "char \<Rightarrow> bool" where
  "is_hex_digit c =
     (is_digit c \<or> (97 \<le> (of_char c :: nat) \<and> (of_char c :: nat) \<le> 102)
                \<or> (65 \<le> (of_char c :: nat) \<and> (of_char c :: nat) \<le> 70))"

definition hex_val :: "char \<Rightarrow> int" where
  "hex_val c =
     (if is_digit c then int (of_char c) - 48
      else if 97 \<le> (of_char c :: nat) then int (of_char c) - 87
      else int (of_char c) - 55)"

definition parseInt :: "jsval \<Rightarrow> js_error + number" where
  "parseInt v =
     (case ToString v of
        Inl err \<Rightarrow> Inl err
      | Inr text \<Rightarrow>
          Inr (let s = dropWhile js_space text;
                   negative = (take 1 s = ''-'');
                   s1 = (if take 1 s = ''-'' \<or> take 1 s = ''+'' then drop 1 s else s);
                   hex = (take 2 s1 = ''0x'' \<or> take 2 s1 = ''0X'');
                   ds = (if hex then takeWhile is_hex_digit (drop 2 s1) else takeWhile is_digit s1);
                   n = (if hex then foldl (\<lambda>a c. 16 * a + hex_val c) 0 ds
                        else foldl (\<lambda>a c. 10 * a + (int (of_char c) - 48)) 0 ds)
               in if ds = [] then None else Some (to_double (if negative then - n else n))))"

definition db_missing_field :: "jsval \<Rightarrow> jsval \<Rightarrow> jsval \<Rightarrow> jsval \<Rightarrow> jsval \<Rightarrow> bool" where
  "db_missing_field name mobile dob age action =
     (\<not> truthy name \<or> \<not> truthy mobile \<or> \<not> truthy dob \<or> age = JUndefined \<or> \<not> truthy action)"

text \<open>The expression \<open>processedAt ? new Date(processedAt) : new Date()\<close>.\<close>

definition processedAt_value :: "env \<Rightarrow> jsval \<Rightarrow> js_error + number" where
  "processedAt_value e processedAt =
     (if truthy processedAt then newDate e processedAt else Inr (Some (now e)))"

text \<open>
  The object literal both creating branches build, its properties evaluated in order; a
  \<open>trim\<close> of a non-string throws, and so can a conversion.
\<close>

definition new_fields ::
  "env \<Rightarrow> jsval \<Rightarrow> jsval \<Rightarrow> jsval \<Rightarrow> jsval \<Rightarrow> jsval \<Rightarrow> jsval \<Rightarrow> js_error + candidate" where
  "new_fields e name mobile dob age action processedAt =
     (case call_trim ''name'' name of
        Inl err \<Rightarrow> Inl err
      | Inr n \<Rightarrow>
          (case call_trim ''mobile'' mobile of
             Inl err \<Rightarrow> Inl err
           | Inr m \<Rightarrow>
               (case parseInt age of
                  Inl err \<Rightarrow> Inl err
                | Inr g \<Rightarrow>
                    (case call_trim ''action'' action of
                       Inl err \<Rightarrow> Inl err
                     | Inr a \<Rightarrow>
                         (case processedAt_value e processedAt of
                            Inl err \<Rightarrow> Inl err
                          | Inr p \<Rightarrow>
                              Inr \<lparr>c_name = n, c_mobile = m, c_dob = dob, c_age = g, c_action = a,
                                   c_processedAt = p\<rparr>)))))"

text \<open>
  The five assignments to a found document. Its mobile is not assigned: the candidate
  carries the stored one.
\<close>

definition assigned_fields ::
  "env \<Rightarrow> doc \<Rightarrow> jsval \<Rightarrow> jsval \<Rightarrow> jsval \<Rightarrow> jsval \<Rightarrow> jsval \<Rightarrow> js_error + candidate" where
  "assigned_fields e existingData name dob age action processedAt =
     (case call_trim ''name'' name of
        Inl err \<Rightarrow> Inl err
      | Inr n \<Rightarrow>
          (case parseInt age of
             Inl err \<Rightarrow> Inl err
           | Inr g \<Rightarrow>
               (case call_trim ''action'' action of
                  Inl err \<Rightarrow> Inl err
                | Inr a \<Rightarrow>
                    (case processedAt_value e processedAt of
                       Inl err \<Rightarrow> Inl err
                     | Inr p \<Rightarrow>
                         Inr \<lparr>c_name = n, c_mobile = doc_mobile existingData, c_dob = dob,
                              c_age = g, c_action = a, c_processedAt = p\<rparr>))))"

definition doc_json :: "doc \<Rightarrow> jsval" where
  "doc_json d =
     JObj [(''id'', JNum (Some (int (doc_id d)))),
           (''name'', JStr (doc_name d)),
           (''mobile'', JStr (doc_mobile d)),
           (''dob'', JStr (doc_dob d)),
           (''age'', JNum (Some (doc_age d))),
           (''action'', JStr (doc_action d)),
           (''processedAt'', JStr (toISOString (doc_processedAt d))),
           (''createdAt'', JStr (toISOString (createdAt d))),
           (''updatedAt'', JStr (toISOString (updatedAt d)))]"

definition db_failure :: "nat \<Rightarrow> string \<Rightarrow> response" where
  "db_failure code msg = \<lparr>status = code, json = [(''success'', JBool False), (''message'', JStr msg)]\<rparr>"

text \<open>The 500 response of a \<open>catch\<close>, with the message of what it caught.\<close>

definition db_error :: "string \<Rightarrow> string \<Rightarrow> response" where
  "db_error msg error =
     \<lparr>status = 500,
      json = [(''success'', JBool False), (''message'', JStr msg), (''error'', JStr error)]\<rparr>"

definition db_success :: "nat \<Rightarrow> string \<Rightarrow> string \<Rightarrow> string \<Rightarrow> doc \<Rightarrow> response" where
  "db_success code msg act key d =
     \<lparr>status = code,
      json = [(''success'', JBool True), (''message'', JStr msg), (''action'', JStr act),
              (key, doc_json d)]\<rparr>"

text \<open>\<open>POST /api/postdata/db\<close>. \<open>oid\<close> is the identifier a new document gets.\<close>

definition postdata_post ::
  "env \<Rightarrow> nat \<Rightarrow> doc list \<Rightarrow> (string \<times> jsval) list \<Rightarrow> response \<times> doc list" where
  "postdata_post e oid docs body =
     (let name = get_prop body ''name'';
          mobile = get_prop body ''mobile'';
          dob = get_prop body ''dob'';
          age = get_prop body ''age'';
          action = get_prop body ''action'';
          processedAt = get_prop body ''processedAt''
      in if db_missing_field name mobile dob age action
         then (db_failure 400 ''All fields (name, mobile, dob, age, action) are required'', docs)
         else
           (case new_fields e name mobile dob age action processedAt of
              Inl err \<Rightarrow> (db_error ''Failed to create data in MongoDB'' (error_message err), docs)
            | Inr c \<Rightarrow>
                (case save_new e oid docs c of
                   Inl paths \<Rightarrow>
                     (db_error ''Failed to create data in MongoDB'' (validationText e paths), docs)
                 | Inr (savedData, docs') \<Rightarrow>
                     (db_success 201 ''Data created in MongoDB successfully'' ''CREATE'' ''data''
                        savedData, docs'))))"

text \<open>\<open>PUT /api/postdata/db\<close>.\<close>

definition postdata_put ::
  "env \<Rightarrow> nat \<Rightarrow> doc list \<Rightarrow> (string \<times> jsval) list \<Rightarrow> response \<times> doc list" where
  "postdata_put e oid docs body =
     (let name = get_prop body ''name'';
          mobile = get_prop body ''mobile'';
          dob = get_prop body ''dob'';
          age = get_prop body ''age'';
          action = get_prop body ''action'';
          processedAt = get_prop body ''processedAt''
      in if db_missing_field name mobile dob age action
         then (db_failure 400 ''All fields (name, mobile, dob, age, action) are required for update'',
               docs)
         else
           (case call_trim ''mobile'' mobile of
              Inl err \<Rightarrow> (db_error ''Failed to update data in MongoDB'' (error_message err), docs)
            | Inr key \<Rightarrow>
                (case findOne key docs of
                   None \<Rightarrow>
                     (case new_fields e name mobile dob age action processedAt of
                        Inl err \<Rightarrow>
                          (db_error ''Failed to update data in MongoDB'' (error_message err), docs)
                      | Inr c \<Rightarrow>
                          (case save_new e oid docs c of
                             Inl paths \<Rightarrow>
                               (db_error ''Failed to update data in MongoDB'' (validationText e paths),
                                docs)
                           | Inr (savedData, docs') \<Rightarrow>
                               (db_success 201
                                  ''Data created (record not found for update) in MongoDB successfully''
                                  ''CREATE (from UPDATE)'' ''data'' savedData, docs')))
                 | Some i \<Rightarrow>
                     (case assigned_fields e (docs ! i) name dob age action processedAt of
                        Inl err \<Rightarrow>
                          (db_error ''Failed to update data in MongoDB'' (error_message err), docs)
                      | Inr c \<Rightarrow>
                          (case save_existing e docs i c of
                             Inl paths \<Rightarrow>
                               (db_error ''Failed to update data in MongoDB'' (validationText e paths),
                                docs)
                           | Inr (updatedData, docs') \<Rightarrow>
                               (db_success 200 ''Data updated in MongoDB successfully'' ''UPDATE''
                                  ''data'' updatedData, docs'))))))"

text \<open>\<open>DELETE /api/postdata/db\<close>.\<close>

definition postdata_delete :: "doc list \<Rightarrow> (string \<times> jsval) list \<Rightarrow> response \<times> doc list" where
  "postdata_delete docs body =
     (let mobile = get_prop body ''mobile''
      in if \<not> truthy mobile
         then (db_failure 400 ''Mobile number is required for delete operation'', docs)
         else
           (case call_trim ''mobile'' mobile of
              Inl err \<Rightarrow> (db_error ''Failed to delete data from MongoDB'' (error_message err), docs)
            | Inr key \<Rightarrow>
                (case findOneAndDelete key docs of
                   None \<Rightarrow>
                     (\<lparr>status = 404,
                       json = [(''success'', JBool False),
                               (''message'', JStr ''Record not found for deletion''),
                               (''mobile'', JStr key)]\<rparr>, docs)
                 | Some (deletedData, docs') \<Rightarrow>
                     (db_success 200 ''Data deleted from MongoDB successfully'' ''DELETE''
                        ''deletedData'' deletedData, docs'))))"

subsection \<open>Records and lookups\<close>

text \<open>No persisted record has the mobile of the request (the key is the trimmed string).\<close>

definition no_record_for :: "doc list \<Rightarrow> jsval \<Rightarrow> bool" where
  "no_record_for docs mobile = (case mobile of JStr m \<Rightarrow> findOne (trim m) docs = None | _ \<Rightarrow> True)"

text \<open>
  A body that carries a record of the data model: name, mobile and action are strings
  that are not blank, dob is a string that is not empty, age is present and begins with
  an integer, and processedAt, when given, is a date.
\<close>

definition is_text :: "jsval \<Rightarrow> bool" where
  "is_text v = (case v of JStr s \<Rightarrow> trim s \<noteq> [] | _ \<Rightarrow> False)"

definition storable :: "env \<Rightarrow> (string \<times> jsval) list \<Rightarrow> bool" where
  "storable e body =
     (is_text (get_prop body ''name'') \<and> is_text (get_prop body ''mobile'')
      \<and> (case get_prop body ''dob'' of JStr d \<Rightarrow> d \<noteq> [] | _ \<Rightarrow> False)
      \<and> is_text (get_prop body ''action'')
      \<and> get_prop body ''age'' \<noteq> JUndefined
      \<and> (case parseInt (get_prop body ''age'') of Inr (Some g) \<Rightarrow> True | _ \<Rightarrow> False)
      \<and> (case processedAt_value e (get_prop body ''processedAt'') of
            Inr (Some p) \<Rightarrow> True
          | _ \<Rightarrow> False))"

section \<open>Passing validation\<close>

text \<open>
  A request passes validation when it gets past the five checks of the handler: the
  presence check, \<open>validateName\<close>, \<open>validateMobile\<close>, the range check on the derived
  age, and the membership of the lower-cased action in \<open>validActions\<close>.
\<close>

definition passes_validation :: "env \<Rightarrow> (string \<times> jsval) list \<Rightarrow> bool" where
  "passes_validation e body =
     (let name = get_prop body ''name'';
          mobile = get_prop body ''mobile'';
          dob = get_prop body ''dob'';
          action = get_prop body ''action''
      in \<not> missing_field name mobile dob action
         \<and> validateName name = Inr True \<and> validateMobile mobile = Inr True
         \<and> (case calculateAge e dob of Inl err \<Rightarrow> False | Inr age \<Rightarrow> \<not> age_out_of_range age)
         \<and> (case call_toLowerCase ''action'' action of
               Inl err \<Rightarrow> False
             | Inr a \<Rightarrow> a \<in> set validActions))"

section \<open>Concrete requests\<close>

text \<open>The clock at 2024-06-14T10:00:00.000Z.\<close>

definition t_2024_06_14 :: int where
  "t_2024_06_14 = 1718359200000"

definition form :: "string \<Rightarrow> jsval \<Rightarrow> string \<Rightarrow> string \<Rightarrow> (string \<times> jsval) list" where
  "form name mobile dob action =
     [(''name'', JStr name), (''mobile'', mobile), (''dob'', JStr dob), (''action'', JStr action)]"

text \<open>
  The Persistence API as the client of the Validation and Dispatch API sees it: the
  handler of the request's verb runs on the received body, and the client rejects with
  an error for any status outside 2xx.
\<close>

definition persistence_api :: "env \<Rightarrow> nat \<Rightarrow> doc list \<Rightarrow> http_request \<Rightarrow> response \<times> doc list" where
  "persistence_api e oid docs rq =
     (case rq_verb rq of
        POST \<Rightarrow> postdata_post e oid docs (received_body rq)
      | PUT \<Rightarrow> postdata_put e oid docs (received_body rq)
      | DELETE \<Rightarrow> postdata_delete docs (received_body rq))"

definition axios_result :: "response \<Rightarrow> string + jsval" where
  "axios_result r =
     (if 200 \<le> status r \<and> status r < 300 then Inr (JObj (json r))
      else Inl (''Request failed with status code '' @ show_int (int (status r))))"

text \<open>Calendar dates \<open>(year, month, day)\<close> in their order.\<close>

definition date_le :: "int \<times> int \<times> int \<Rightarrow> int \<times> int \<times> int \<Rightarrow> bool" where
  "date_le a b =
     (fst a < fst b
      \<or> (fst a = fst b
          \<and> (fst (snd a) < fst (snd b) \<or> (fst (snd a) = fst (snd b) \<and> snd (snd a) \<le> snd (snd b)))))"

definition always_ok :: "http_request \<Rightarrow> string + jsval" where
  "always_ok rq = Inr JNull"

definition asha :: "string \<Rightarrow> string \<Rightarrow> (string \<times> jsval) list" where
  "asha dob action = form ''Asha Rao'' (JStr ''9876543210'') dob action"

text \<open>The normalized record of such a request, processed at \<open>t_2024_06_14\<close>.\<close>

definition asha_record :: "string \<Rightarrow> number \<Rightarrow> string \<Rightarrow> (string \<times> jsval) list" where
  "asha_record dob age action =
     [(''name'', JStr ''Asha Rao''), (''mobile'', JStr ''9876543210''), (''dob'', JStr dob),
      (''age'', JNum age), (''action'', JStr action),
      (''processedAt'', JStr ''2024-06-14T10:00:00.000Z'')]"

definition postdata_url :: string where
  "postdata_url = ''http://localhost:5000/api/postdata/db''"

text \<open>The record as the Persistence API receives it, and as it is stored.\<close>

definition asha_body :: "string \<Rightarrow> jsval \<Rightarrow> (string \<times> jsval) list" where
  "asha_body name age =
     [(''name'', JStr name), (''mobile'', JStr ''9876543210''), (''dob'', JStr ''1995-01-01''),
      (''age'', age), (''action'', JStr ''update''),
      (''processedAt'', JStr ''2024-06-14T10:00:00.000Z'')]"

definition asha_doc :: doc where
  "asha_doc =
     \<lparr>doc_id = 1, doc_name = ''Asha Rao'', doc_mobile = ''9876543210'', doc_dob = ''1995-01-01'',
      doc_age = 29, doc_action = ''update'', doc_processedAt = 1718359200000,
      createdAt = 1718359200000, updatedAt = 1718359200000\<rparr>"

text \<open>The record of another person.\<close>

definition ravi_doc :: doc where
  "ravi_doc =
     \<lparr>doc_id = 0, doc_name = ''Ravi'', doc_mobile = ''9123456780'', doc_dob = ''1990-02-03'',
      doc_age = 34, doc_action = ''create'', doc_processedAt = 1718000000000,
      createdAt = 1718000000000, updatedAt = 1718000000000\<rparr>"

text \<open>The clock a day later, at 2024-06-15T10:00:00.000Z.\<close>

definition t_2024_06_15 :: int where
  "t_2024_06_15 = 1718445600000"

section \<open>Properties of the Validation and Dispatch API\<close>

lemma status_bad_request [simp]: "status (bad_request m) = 400"
  by (simp add: bad_request_def)

subsection \<open>The outcomes of the handler\<close>

text \<open>
  Every run of the handler ends in one of three ways: a check rejects the request with
  status 400; a validator or a string function throws, which the outer \<open>catch\<close>
  answers with status 500; or the request is sent on and the answer is 200 or 502. A
  throw after the range check happens only with an age in range.
\<close>

lemma status_forward [simp]:
  "status (forwarded_ok u nm pd d) = 200" "status (forward_failed nm pd m) = 502"
  "status (internal_error err) = 500"
  by (simp_all add: forwarded_ok_def forward_failed_def internal_error_def)

lemma api_post_cases:
  fixes e downstream body
  defines "name \<equiv> get_prop body ''name''" and "mobile \<equiv> get_prop body ''mobile''"
      and "dob \<equiv> get_prop body ''dob''" and "action \<equiv> get_prop body ''action''"
  obtains
    (rejected) msg where "\<not> passes_validation e body"
      "api_post e downstream body = (bad_request msg, None)"
  | (threw) err where "api_post e downstream body = (internal_error err, None)"
      "validateName name = Inl err \<or> validateMobile mobile = Inl err
       \<or> (\<exists>age. calculateAge e dob = Inr age \<and> \<not> age_out_of_range age
                 \<and> (call_toLowerCase ''action'' action = Inl err
                      \<or> processedData e name mobile dob age action = Inl err))"
  | (sent) age a pd send nm where "passes_validation e body"
      "calculateAge e dob = Inr age" "\<not> age_out_of_range age"
      "call_toLowerCase ''action'' action = Inr a" "a \<in> set validActions"
      "processedData e name mobile dob age action = Inr pd"
      "httpMethod a = Some (send, nm)"
      "snd (api_post e downstream body)
         = Some (send (RECEIVER_SERVICE_URL @ ''/api/postdata/db'') (JObj pd) request_config)"
      "status (fst (api_post e downstream body)) = 200 \<or> status (fst (api_post e downstream body)) = 502"
proof -
  note fields = name_def mobile_def dob_def action_def
  show thesis
  proof (cases "missing_field name mobile dob action")
    case True
    then have "api_post e downstream body
                 = (bad_request ''All fields (name, mobile, dob, action) are required'', None)"
      unfolding api_post_def Let_def fields by simp
    moreover from True have "\<not> passes_validation e body"
      unfolding passes_validation_def Let_def fields by simp
    ultimately show thesis using rejected by blast
  next
    case present: False
    show thesis
    proof (cases "validateName name")
      case (Inl err)
      with present have "api_post e downstream body = (internal_error err, None)"
        unfolding api_post_def Let_def fields by simp
      with Inl threw show thesis by blast
    next
      case vn: (Inr valid_name)
      show thesis
      proof (cases valid_name)
        case False
        with present vn have "api_post e downstream body
                 = (bad_request ''Name should contain only letters (a-zA-Z) and spaces'', None)"
          unfolding api_post_def Let_def fields by simp
        moreover from False vn have "\<not> passes_validation e body"
          unfolding passes_validation_def Let_def fields by simp
        ultimately show thesis using rejected by blast
      next
        case name_ok: True
        show thesis
        proof (cases "validateMobile mobile")
          case (Inl err)
          with present vn name_ok have "api_post e downstream body = (internal_error err, None)"
            unfolding api_post_def Let_def fields by simp
          with Inl threw show thesis by blast
        next
          case vm: (Inr valid_mobile)
          show thesis
          proof (cases valid_mobile)
            case False
            with present vn name_ok vm have "api_post e downstream body
                 = (bad_request ''Mobile number should be 10 digits starting with 6, 7, 8, or 9'', None)"
              unfolding api_post_def Let_def fields by simp
            moreover from False vm have "\<not> passes_validation e body"
              unfolding passes_validation_def Let_def fields by simp
            ultimately show thesis using rejected by blast
          next
            case mobile_ok: True
            note checked = present vn name_ok vm mobile_ok
            show thesis
            proof (cases "calculateAge e dob")
              case (Inl dobError)
              with checked have "api_post e downstream body
                 = (bad_request ''Invalid date of birth format or unrealistic age'', None)"
                unfolding api_post_def Let_def fields by simp
              moreover from Inl have "\<not> passes_validation e body"
                unfolding passes_validation_def Let_def fields by simp
              ultimately show thesis using rejected by blast
            next
              case age: (Inr age)
              show thesis
              proof (cases "age_out_of_range age")
                case True
                with checked age have "api_post e downstream body
                   = (bad_request ''Invalid date of birth format or unrealistic age'', None)"
                  unfolding api_post_def Let_def fields by simp
                moreover from True age have "\<not> passes_validation e body"
                  unfolding passes_validation_def Let_def fields by simp
                ultimately show thesis using rejected by blast
              next
                case in_range: False
                show thesis
                proof (cases "call_toLowerCase ''action'' action")
                  case (Inl err)
                  with checked age in_range
                  have "api_post e downstream body = (internal_error err, None)"
                    unfolding api_post_def Let_def fields by simp
                  with Inl age in_range threw show thesis by blast
                next
                  case lower: (Inr a)
                  show thesis
                  proof (cases "a \<in> set validActions")
                    case False
                    with checked age in_range lower have "api_post e downstream body
                       = (bad_request ''Invalid action. Must be create, update, or delete.'', None)"
                      unfolding api_post_def Let_def fields by simp
                    moreover from False lower have "\<not> passes_validation e body"
                      unfolding passes_validation_def Let_def fields by simp
                    ultimately show thesis using rejected by blast
                  next
                    case valid_action: True
                    from checked age in_range lower valid_action
                    have passes: "passes_validation e body"
                      unfolding passes_validation_def Let_def fields by simp
                    show thesis
                    proof (cases "processedData e name mobile dob age action")
                      case (Inl err)
                      with checked age in_range lower valid_action
                      have "api_post e downstream body = (internal_error err, None)"
                        unfolding api_post_def Let_def fields by simp
                      with Inl age in_range threw show thesis by blast
                    next
                      case pd: (Inr pd)
                      from valid_action obtain send nm where hm: "httpMethod a = Some (send, nm)"
                        by (auto simp: httpMethod_def validActions_def)
                      let ?rq = "send (RECEIVER_SERVICE_URL @ ''/api/postdata/db'') (JObj pd) request_config"
                      have r: "api_post e downstream body =
                        (case downstream ?rq of
                           Inl msg \<Rightarrow> (forward_failed nm pd msg, Some ?rq)
                         | Inr data \<Rightarrow>
                             (case call_toUpperCase ''action'' action of
                                Inl err \<Rightarrow> (forward_failed nm pd (error_message err), Some ?rq)
                              | Inr upper \<Rightarrow> (forwarded_ok upper nm pd data, Some ?rq)))"
                        using checked age in_range lower valid_action pd hm
                        unfolding api_post_def Let_def fields by simp
                      have "snd (api_post e downstream body) = Some ?rq"
                        unfolding r by (simp split: sum.splits)
                      moreover have "status (fst (api_post e downstream body)) = 200
                                     \<or> status (fst (api_post e downstream body)) = 502"
                        unfolding r by (simp split: sum.splits)
                      ultimately show thesis
                        using sent [OF passes age in_range lower valid_action pd hm] by blast
                    qed
                  qed
                qed
              qed
            qed
          qed
        qed
      qed
    qed
  qed
qed

lemma form_fields [simp]:
  "get_prop (form n m d a) ''name'' = JStr n"
  "get_prop (form n m d a) ''mobile'' = m"
  "get_prop (form n m d a) ''dob'' = JStr d"
  "get_prop (form n m d a) ''action'' = JStr a"
  by (simp_all add: form_def get_prop_def)

lemma validActions_nonempty: "[] \<notin> set validActions"
  by (simp add: validActions_def)

lemma processedData_keys:
  assumes "processedData e name mobile dob age action = Inr pd"
  shows "map fst pd = [''name'', ''mobile'', ''dob'', ''age'', ''action'', ''processedAt'']"
  using assms
  by (auto simp: processedData_def split: sum.splits)

lemma processedData_no_data:
  assumes "processedData e name mobile dob age action = Inr pd"
  shows "get_prop pd ''data'' = JUndefined"
proof -
  have "''data'' \<notin> set (map fst pd)"
    unfolding processedData_keys [OF assms] by simp
  then have "map_of pd ''data'' = None"
    by (simp add: map_of_eq_None_iff)
  then show ?thesis by (simp add: get_prop_def)
qed

lemma processedData_strings:
  "processedData e (JStr n) (JStr m) dob age (JStr a) =
     Inr [(''name'', JStr (trim n)), (''mobile'', JStr (trim m)), (''dob'', dob), (''age'', JNum age),
          (''action'', JStr (trim (toLowerCase a))), (''processedAt'', JStr (toISOString (now e)))]"
  by (simp add: processedData_def call_trim_def call_toLowerCase_def)

lemma httpMethod_verb:
  assumes "httpMethod a = Some (send, nm)"
  shows "(a = ''create'' \<and> send = axios_post \<and> nm = ''POST'')
       \<or> (a = ''update'' \<and> send = axios_put \<and> nm = ''PUT'')
       \<or> (a = ''delete'' \<and> send = axios_delete \<and> nm = ''DELETE'')"
  using assms by (auto simp: httpMethod_def split: if_splits)

lemma postdata_delete_empty_body:
  "postdata_delete docs [] = (db_failure 400 ''Mobile number is required for delete operation'', docs)"
  by (simp add: postdata_delete_def get_prop_def)

text \<open>A 400 response is never accompanied by a request to the Persistence API.\<close>

lemma bad_request_is_never_forwarded:
  assumes "status (fst (api_post e downstream body)) = 400"
  shows "snd (api_post e downstream body) = None"
proof (cases e downstream body rule: api_post_cases)
  case (rejected msg)
  then show ?thesis by simp
next
  case (threw err)
  then show ?thesis by simp
next
  case (sent age a pd send nm)
  with assms show ?thesis by auto
qed

text \<open>
  The age of a dob given as a string: \<open>NaN\<close> when the string does not parse, and
  otherwise the difference of the local years, less one before the local anniversary.
\<close>

lemma calculateAge_string:
  "calculateAge e (JStr s) =
     Inr (case parseDate e s of
            None \<Rightarrow> None
          | Some t \<Rightarrow>
              Some (let b = localFields e t; n = localFields e (now e)
                    in if fst (snd n) < fst (snd b)
                          \<or> (fst (snd n) = fst (snd b) \<and> snd (snd n) < snd (snd b))
                       then fst n - fst b - 1 else fst n - fst b))"
  by (simp add: calculateAge_def newDate_def getFullYear_def getMonth_def getDate_def num_sub_def
      num_lt_def num_eq_def Let_def split: option.splits)

lemma NaN_in_range: "\<not> age_out_of_range None"
  by (simp add: age_out_of_range_def num_lt_def num_gt_def)

lemma valid_texts:
  "validateName (JStr n) = Inr True \<Longrightarrow> n \<noteq> []"
  "validateMobile (JStr m) = Inr True \<Longrightarrow> m \<noteq> []"
  "toLowerCase a \<in> set validActions \<Longrightarrow> a \<noteq> []"
  using validActions_nonempty
  by (auto simp: validateName_def validateMobile_def toLowerCase_def)

subsection \<open>Dispatch\<close>

text \<open>
  C1. The claim: for every request that passes validation, the operation of the action
  is invoked with the normalized record as the request body; for delete, the delete
  operation receives a body with the normalized mobile. What the code does for delete:
  the record is passed to \<open>axios.delete\<close> in the position of the configuration, so every
  DELETE request the handler sends has no body; the delete operation reads no mobile,
  answers 400 and deletes nothing.
\<close>

theorem delete_is_forwarded_without_body:
  assumes "snd (api_post e downstream body) = Some rq" and "rq_verb rq = DELETE"
  shows "rq_data rq = JUndefined
       \<and> get_prop (received_body rq) ''mobile'' = JUndefined
       \<and> status (fst (postdata_delete docs (received_body rq))) = 400
       \<and> snd (postdata_delete docs (received_body rq)) = docs"
proof (cases e downstream body rule: api_post_cases)
  case (rejected msg)
  with assms show ?thesis by simp
next
  case (threw err)
  with assms show ?thesis by simp
next
  case (sent age a pd send nm)
  from sent(8) assms(1)
  have rq: "rq = send (RECEIVER_SERVICE_URL @ ''/api/postdata/db'') (JObj pd) request_config"
    by simp
  from httpMethod_verb [OF sent(7)] rq assms(2)
  have "send = axios_delete"
    by (auto simp: axios_post_def axios_put_def)
  with rq have d: "rq_data rq = JUndefined"
    by (simp add: axios_delete_def member_def processedData_no_data [OF sent(6)])
  then have b: "received_body rq = []"
    by (simp add: received_body_def)
  show ?thesis
    by (simp add: d b postdata_delete_empty_body db_failure_def get_prop_def)
qed

theorem delete_is_forwarded_without_body_witness:
  "snd (api_post (iso_env 0 t_2024_06_14) always_ok (asha ''1995-01-01'' ''delete''))
     = Some (axios_delete postdata_url (JObj (asha_record ''1995-01-01'' (Some 29) ''delete'')) request_config)
   \<and> rq_verb (axios_delete postdata_url (JObj (asha_record ''1995-01-01'' (Some 29) ''delete'')) request_config) = DELETE
   \<and> rq_data (axios_delete postdata_url (JObj (asha_record ''1995-01-01'' (Some 29) ''delete'')) request_config) = JUndefined
   \<and> get_prop (received_body (axios_delete postdata_url (JObj (asha_record ''1995-01-01'' (Some 29) ''delete'')) request_config)) ''mobile'' = JUndefined
   \<and> status (fst (postdata_delete [] (received_body (axios_delete postdata_url (JObj (asha_record ''1995-01-01'' (Some 29) ''delete'')) request_config)))) = 400
   \<and> snd (postdata_delete [] (received_body (axios_delete postdata_url (JObj (asha_record ''1995-01-01'' (Some 29) ''delete'')) request_config))) = []"
proof -
  let ?rq = "axios_delete postdata_url (JObj (asha_record ''1995-01-01'' (Some 29) ''delete'')) request_config"
  have sent: "snd (api_post (iso_env 0 t_2024_06_14) always_ok (asha ''1995-01-01'' ''delete'')) = Some ?rq"
    by code_simp
  have verb: "rq_verb ?rq = DELETE"
    by (simp add: axios_delete_def)
  from delete_is_forwarded_without_body [OF sent verb, of "[]"] sent verb show ?thesis by blast
qed

text \<open>
  End to end, with the record stored: the delete operation answers 400, the caller gets
  status 502, and the record is still there.
\<close>

lemma delete_end_to_end:
  "api_post (iso_env 0 t_2024_06_14)
     (\<lambda>rq. axios_result (fst (persistence_api (iso_env 0 t_2024_06_14) 2 [asha_doc] rq)))
     (asha ''1995-01-01'' ''delete'')
   = (forward_failed ''DELETE'' (asha_record ''1995-01-01'' (Some 29) ''delete'')
        ''Request failed with status code 400'',
      Some (axios_delete postdata_url (JObj (asha_record ''1995-01-01'' (Some 29) ''delete''))
              request_config))
   \<and> snd (persistence_api (iso_env 0 t_2024_06_14) 2 [asha_doc]
            (axios_delete postdata_url (JObj (asha_record ''1995-01-01'' (Some 29) ''delete''))
               request_config)) = [asha_doc]"
  by code_simp

text \<open>
  The create and update branches do send the normalized record as the body.
\<close>

lemma create_and_update_forward_the_record:
  assumes "passes_validation e (form n (JStr m) d a)"
      and "toLowerCase a = ''create'' \<or> toLowerCase a = ''update''"
  shows "\<exists>age. calculateAge e (JStr d) = Inr age
         \<and> snd (api_post e downstream (form n (JStr m) d a))
         = Some \<lparr>rq_verb = (if toLowerCase a = ''create'' then POST else PUT),
                  rq_url = postdata_url,
                  rq_data = JObj [(''name'', JStr (trim n)), (''mobile'', JStr (trim m)),
                                  (''dob'', JStr d), (''age'', JNum age),
                                  (''action'', JStr (trim (toLowerCase a))),
                                  (''processedAt'', JStr (toISOString (now e)))],
                  rq_config = request_config\<rparr>"
proof (cases e downstream "form n (JStr m) d a" rule: api_post_cases)
  case (rejected msg)
  with assms(1) show ?thesis by simp
next
  case (threw err)
  with assms(1) show ?thesis
    by (auto simp: processedData_strings call_toLowerCase_def passes_validation_def Let_def)
next
  case (sent age a' pd send nm)
  from sent(4) have a': "a' = toLowerCase a" by (simp add: call_toLowerCase_def)
  from sent(6) have pd: "pd = [(''name'', JStr (trim n)), (''mobile'', JStr (trim m)),
                                  (''dob'', JStr d), (''age'', JNum age),
                                  (''action'', JStr (trim (toLowerCase a))),
                                  (''processedAt'', JStr (toISOString (now e)))]"
    by (simp add: processedData_strings)
  from httpMethod_verb [OF sent(7)] assms(2) a'
  have "(toLowerCase a = ''create'' \<and> send = axios_post) \<or> (toLowerCase a = ''update'' \<and> send = axios_put)"
    by auto
  then have "snd (api_post e downstream (form n (JStr m) d a))
         = Some \<lparr>rq_verb = (if toLowerCase a = ''create'' then POST else PUT),
                  rq_url = postdata_url,
                  rq_data = JObj [(''name'', JStr (trim n)), (''mobile'', JStr (trim m)),
                                  (''dob'', JStr d), (''age'', JNum age),
                                  (''action'', JStr (trim (toLowerCase a))),
                                  (''processedAt'', JStr (toISOString (now e)))],
                  rq_config = request_config\<rparr>"
    unfolding sent(8) pd
    by (auto simp: axios_post_def axios_put_def RECEIVER_SERVICE_URL_def postdata_url_def)
  with sent(2) show ?thesis by simp
qed

lemma create_end_to_end:
  "api_post (iso_env 0 t_2024_06_14)
     (\<lambda>rq. axios_result (fst (persistence_api (iso_env 0 t_2024_06_14) 1 [] rq)))
     (asha ''1995-01-01'' ''create'')
   = (forwarded_ok ''CREATE'' ''POST'' (asha_record ''1995-01-01'' (Some 29) ''create'')
        (JObj (json (db_success 201 ''Data created in MongoDB successfully'' ''CREATE'' ''data''
                       (asha_doc\<lparr>doc_action := ''create''\<rparr>)))),
      Some (axios_post postdata_url (JObj (asha_record ''1995-01-01'' (Some 29) ''create''))
              request_config))
   \<and> snd (persistence_api (iso_env 0 t_2024_06_14) 1 []
            (axios_post postdata_url (JObj (asha_record ''1995-01-01'' (Some 29) ''create''))
               request_config)) = [asha_doc\<lparr>doc_action := ''create''\<rparr>]"
  by code_simp

subsection \<open>Date of birth\<close>

text \<open>
  A dob that does not parse as a date gets past every check of the handler: \<open>new Date\<close>
  of the string does not throw, the age is \<open>NaN\<close>, and both comparisons of the range
  check are false.
\<close>

lemma unparseable_dob_passes:
  assumes "parseDate e d = None" and "d \<noteq> []"
      and "validateName (JStr n) = Inr True" and "validateMobile (JStr m) = Inr True"
      and "toLowerCase a \<in> set validActions"
  shows "passes_validation e (form n (JStr m) d a)"
    and "calculateAge e (JStr d) = Inr None"
  using assms valid_texts(1) [of n] valid_texts(2) [of m] valid_texts(3) [of a]
  by (simp_all add: passes_validation_def missing_field_def calculateAge_string NaN_in_range
      call_toLowerCase_def)

text \<open>
  C2. The claim: with name, mobile and action valid, a dob that does not parse as a date
  is rejected with status 400 and nothing is forwarded. What the code does: the request
  with such a dob is not answered with 400, and it is sent on.
\<close>

theorem unparseable_dob_is_forwarded:
  assumes "parseDate e d = None" and "d \<noteq> []"
      and "validateName (JStr n) = Inr True" and "validateMobile (JStr m) = Inr True"
      and "toLowerCase a \<in> set validActions"
  shows "status (fst (api_post e downstream (form n (JStr m) d a))) \<noteq> 400
       \<and> snd (api_post e downstream (form n (JStr m) d a)) \<noteq> None"
proof (cases e downstream "form n (JStr m) d a" rule: api_post_cases)
  case (rejected msg)
  with unparseable_dob_passes(1) [OF assms] show ?thesis by simp
next
  case (threw err)
  with assms(3,4) show ?thesis
    by (simp add: processedData_strings call_toLowerCase_def)
next
  case (sent age a' pd send nm)
  then show ?thesis by auto
qed

theorem unparseable_dob_witness:
  "parseDate (iso_env 0 t_2024_06_14) ''abc'' = None
   \<and> validateName (JStr ''Asha Rao'') = Inr True \<and> validateMobile (JStr ''9876543210'') = Inr True
   \<and> toLowerCase ''create'' \<in> set validActions
   \<and> status (fst (api_post (iso_env 0 t_2024_06_14) always_ok (form ''Asha Rao'' (JStr ''9876543210'') ''abc'' ''create''))) \<noteq> 400
   \<and> snd (api_post (iso_env 0 t_2024_06_14) always_ok (form ''Asha Rao'' (JStr ''9876543210'') ''abc'' ''create'')) \<noteq> None"
proof -
  have p: "parseDate (iso_env 0 t_2024_06_14) ''abc'' = None" by code_simp
  have d: "''abc'' \<noteq> []" by simp
  have n: "validateName (JStr ''Asha Rao'') = Inr True" by code_simp
  have m: "validateMobile (JStr ''9876543210'') = Inr True" by code_simp
  have a: "toLowerCase ''create'' \<in> set validActions" by code_simp
  from unparseable_dob_is_forwarded [OF p d n m a, of always_ok] p n m a show ?thesis by blast
qed

text \<open>
  C6. The claim: a request that fails any validation step, the dob step among them, is
  answered with status 400 and no Persistence API operation is invoked for it. What the
  code does with a dob that does not parse as a date, the other fields being valid: it
  invokes the operation of the action, with a record whose age is \<open>NaN\<close>, and answers
  200 or 502. The cause is the one of C2.
\<close>

theorem unparseable_dob_reaches_persistence:
  assumes "parseDate e d = None" and "d \<noteq> []"
      and "validateName (JStr n) = Inr True" and "validateMobile (JStr m) = Inr True"
      and "httpMethod (toLowerCase a) = Some (send, nm)"
  shows "snd (api_post e downstream (form n (JStr m) d a))
           = Some (send postdata_url
                     (JObj [(''name'', JStr (trim n)), (''mobile'', JStr (trim m)), (''dob'', JStr d),
                            (''age'', JNum None), (''action'', JStr (trim (toLowerCase a))),
                            (''processedAt'', JStr (toISOString (now e)))])
                     request_config)
       \<and> (status (fst (api_post e downstream (form n (JStr m) d a))) = 200
            \<or> status (fst (api_post e downstream (form n (JStr m) d a))) = 502)"
proof -
  from assms(5) have a: "toLowerCase a \<in> set validActions"
    by (auto simp: httpMethod_def validActions_def split: if_splits)
  note passes = unparseable_dob_passes [OF assms(1-4) a]
  show ?thesis
  proof (cases e downstream "form n (JStr m) d a" rule: api_post_cases)
    case (rejected msg)
    with passes(1) show ?thesis by simp
  next
    case (threw err)
    with assms(3,4) show ?thesis
      by (simp add: processedData_strings call_toLowerCase_def)
  next
    case (sent age a' pd send' nm')
    from sent(2) passes(2) have age: "age = None" by simp
    from sent(4) have a': "a' = toLowerCase a" by (simp add: call_toLowerCase_def)
    from sent(7) assms(5) a' have send: "send' = send" by simp
    from sent(6) have pd: "pd = [(''name'', JStr (trim n)), (''mobile'', JStr (trim m)), (''dob'', JStr d),
                            (''age'', JNum None), (''action'', JStr (trim (toLowerCase a))),
                            (''processedAt'', JStr (toISOString (now e)))]"
      by (simp add: processedData_strings age)
    from sent(8,9) show ?thesis
      by (simp add: pd send RECEIVER_SERVICE_URL_def postdata_url_def)
  qed
qed

theorem unparseable_dob_reaches_persistence_witness:
  "parseDate (iso_env 0 t_2024_06_14) ''abc'' = None
   \<and> validateName (JStr ''Asha Rao'') = Inr True \<and> validateMobile (JStr ''9876543210'') = Inr True
   \<and> httpMethod (toLowerCase ''create'') = Some (axios_post, ''POST'')
   \<and> snd (api_post (iso_env 0 t_2024_06_14)
            (\<lambda>rq. axios_result (fst (persistence_api (iso_env 0 t_2024_06_14) 1 [ravi_doc] rq)))
            (form ''Asha Rao'' (JStr ''9876543210'') ''abc'' ''create''))
       = Some (axios_post postdata_url (JObj (asha_record ''abc'' None ''create'')) request_config)
   \<and> status (fst (persistence_api (iso_env 0 t_2024_06_14) 1 [ravi_doc]
                  (axios_post postdata_url (JObj (asha_record ''abc'' None ''create'')) request_config)))
       = 500
   \<and> status (fst (api_post (iso_env 0 t_2024_06_14)
                 (\<lambda>rq. axios_result (fst (persistence_api (iso_env 0 t_2024_06_14) 1 [ravi_doc] rq)))
                 (form ''Asha Rao'' (JStr ''9876543210'') ''abc'' ''create''))) = 502"
proof -
  let ?e = "iso_env 0 t_2024_06_14"
  let ?down = "\<lambda>rq. axios_result (fst (persistence_api ?e 1 [ravi_doc] rq))"
  have p: "parseDate ?e ''abc'' = None" by code_simp
  have d: "''abc'' \<noteq> []" by simp
  have n: "validateName (JStr ''Asha Rao'') = Inr True" by code_simp
  have m: "validateMobile (JStr ''9876543210'') = Inr True" by code_simp
  have l: "toLowerCase ''create'' = ''create''" by code_simp
  have h: "httpMethod (toLowerCase ''create'') = Some (axios_post, ''POST'')"
    unfolding l by (simp add: httpMethod_def)
  have r: "[(''name'', JStr (trim ''Asha Rao'')), (''mobile'', JStr (trim ''9876543210'')),
            (''dob'', JStr ''abc''), (''age'', JNum None),
            (''action'', JStr (trim (toLowerCase ''create''))),
            (''processedAt'', JStr (toISOString (now ?e)))] = asha_record ''abc'' None ''create''"
    by code_simp
  have s: "status (fst (persistence_api ?e 1 [ravi_doc]
                  (axios_post postdata_url (JObj (asha_record ''abc'' None ''create'')) request_config)))
       = 500"
    by code_simp
  have f: "status (fst (api_post ?e ?down (form ''Asha Rao'' (JStr ''9876543210'') ''abc'' ''create''))) = 502"
    by code_simp
  from unparseable_dob_reaches_persistence [OF p d n m h, of ?down] p n m h s f
  show ?thesis unfolding r by blast
qed

text \<open>
  For a request whose four fields are strings, the steps other than this one hold: when
  a check of the handler fails, the answer is 400 and nothing is sent.
\<close>

lemma validators_of_strings:
  "validateName (JStr n) \<noteq> Inl err" "validateMobile (JStr m) \<noteq> Inl err"
  by (simp_all add: validateName_def validateMobile_def split: list.splits)

lemma failed_check_is_rejected:
  assumes "\<not> passes_validation e (form n (JStr m) d a)"
  shows "status (fst (api_post e downstream (form n (JStr m) d a))) = 400
       \<and> snd (api_post e downstream (form n (JStr m) d a)) = None"
proof (cases e downstream "form n (JStr m) d a" rule: api_post_cases)
  case (rejected msg)
  then show ?thesis by simp
next
  case (threw err)
  then show ?thesis
    by (simp add: validators_of_strings processedData_strings call_toLowerCase_def)
next
  case (sent age a' pd send nm)
  with assms show ?thesis by simp
qed

text \<open>
  C9. A mobile given as a number whose digits form a valid mobile passes validation
  (the pattern is tested on its text); normalization then calls \<open>trim\<close> on the number,
  and the request ends in the 500 response, with nothing forwarded.
\<close>

theorem numeric_mobile_is_internal_error:
  assumes "validateMobile (JNum k) = Inr True" and "validateName (JStr n) = Inr True" and "d \<noteq> []"
      and "calculateAge e (JStr d) = Inr age" and "\<not> age_out_of_range age"
      and "toLowerCase a \<in> set validActions"
  shows "passes_validation e (form n (JNum k) d a)
       \<and> api_post e downstream (form n (JNum k) d a)
           = (internal_error (TypeError ''mobile.trim is not a function''), None)
       \<and> status (fst (api_post e downstream (form n (JNum k) d a))) = 500"
proof -
  let ?body = "form n (JNum k) d a"
  note nonempty = valid_texts(1) [OF assms(2)] valid_texts(3) [OF assms(6)]
  have k: "truthy (JNum k)"
  proof (cases k)
    case None
    with assms(1) show ?thesis by (simp add: validateMobile_def number_text_def)
  next
    case (Some i)
    have "i \<noteq> 0"
    proof
      assume "i = 0"
      with Some assms(1) show False
        by (simp add: validateMobile_def number_text_def double_text_def digits.simps digit_char_def)
    qed
    with Some show ?thesis by simp
  qed
  have ok: "passes_validation e ?body"
    using assms nonempty k
    by (simp add: passes_validation_def missing_field_def call_toLowerCase_def)
  have pd: "processedData e (JStr n) (JNum k) (JStr d) age' (JStr a)
              = Inl (TypeError ''mobile.trim is not a function'')" for age'
    by (simp add: processedData_def call_trim_def)
  have "api_post e downstream ?body = (internal_error (TypeError ''mobile.trim is not a function''), None)"
  proof (cases e downstream ?body rule: api_post_cases)
    case (rejected msg)
    with ok show ?thesis by simp
  next
    case (threw err)
    with assms(1,2) show ?thesis by (auto simp: pd call_toLowerCase_def)
  next
    case (sent age' a' pd' send nm)
    then show ?thesis by (simp add: pd)
  qed
  with ok show ?thesis by simp
qed

theorem numeric_mobile_witness:
  "validateMobile (JNum (Some 9876543210)) = Inr True \<and> validateName (JStr ''Asha Rao'') = Inr True
   \<and> passes_validation (iso_env 0 t_2024_06_14) (form ''Asha Rao'' (JNum (Some 9876543210)) ''1995-01-01'' ''create'')
   \<and> api_post (iso_env 0 t_2024_06_14) always_ok (form ''Asha Rao'' (JNum (Some 9876543210)) ''1995-01-01'' ''create'')
       = (internal_error (TypeError ''mobile.trim is not a function''), None)
   \<and> status (fst (api_post (iso_env 0 t_2024_06_14) always_ok
                 (form ''Asha Rao'' (JNum (Some 9876543210)) ''1995-01-01'' ''create''))) = 500"
proof -
  have m: "validateMobile (JNum (Some 9876543210)) = Inr True" by code_simp
  have n: "validateName (JStr ''Asha Rao'') = Inr True" by code_simp
  have d: "''1995-01-01'' \<noteq> []" by simp
  have c: "calculateAge (iso_env 0 t_2024_06_14) (JStr ''1995-01-01'') = Inr (Some 29)"
    by code_simp
  have g: "\<not> age_out_of_range (Some 29)" by code_simp
  have a: "toLowerCase ''create'' \<in> set validActions" by code_simp
  from numeric_mobile_is_internal_error [OF m n d c g a, of always_ok] m n show ?thesis by blast
qed

subsection \<open>Age derivation\<close>

lemma negative_age_iff_later_date:
  assumes "parseDate e s = Some t" and "calculateAge e (JStr s) = Inr age"
  shows "num_lt age (Some 0) \<longleftrightarrow> \<not> date_le (localFields e t) (localFields e (now e))"
  using assms(2) unfolding calculateAge_string assms(1)
  by (auto simp: num_lt_def date_le_def Let_def split: if_splits)

lemma age_zero_on_same_date:
  assumes "parseDate e s = Some t" and "localFields e t = localFields e (now e)"
  shows "calculateAge e (JStr s) = Inr (Some 0)"
  unfolding calculateAge_string assms(1) by (simp add: assms(2) Let_def)

text \<open>
  The local day of a midnight UTC: the day before in a zone west of UTC, the same day at
  UTC and east of it.
\<close>

lemma day_west_of_utc:
  assumes "- msPerDay \<le> tz" "tz < 0"
  shows "(961027200000 + tz) div msPerDay = 11122"
proof -
  have "(961027200000 + tz) div 86400000 = (tz + 86400000) div 86400000 + 11122"
    by simp
  moreover have "(tz + 86400000) div 86400000 = 0"
    using assms by (simp add: div_pos_pos_trivial msPerDay_def)
  ultimately show ?thesis by (simp add: msPerDay_def)
qed

lemma day_east_of_utc:
  assumes "0 \<le> tz" "tz < msPerDay"
  shows "(961027200000 + tz) div msPerDay = 11123"
proof -
  have "(961027200000 + tz) div 86400000 = tz div 86400000 + 11123"
    by simp
  moreover have "tz div 86400000 = 0"
    using assms by (simp add: div_pos_pos_trivial msPerDay_def)
  ultimately show ?thesis by (simp add: msPerDay_def)
qed

lemma midnight_east_of_utc:
  assumes "0 \<le> tz" "tz < msPerDay"
  shows "(D * msPerDay + tz) div msPerDay = D"
proof -
  have "(D * 86400000 + tz) div 86400000 = D + tz div 86400000"
    by simp
  moreover have "tz div 86400000 = 0"
    using assms by (simp add: div_pos_pos_trivial msPerDay_def)
  ultimately show ?thesis by (simp add: msPerDay_def)
qed

lemma civil_11122: "civil_from_days 11122 = (2000, 5, 14)"
  by code_simp

lemma civil_11123: "civil_from_days 11123 = (2000, 5, 15)"
  by code_simp

text \<open>
  C7. The claim: for the dob 2000-06-15 the age is 23 on 2024-06-14 and 24 from
  2024-06-15 on. The dob string is read as midnight UTC, and its fields are then read in
  local time: in a zone west of UTC the birth date's local day is the 14th, and the age
  on the local date 2024-06-14 is already 24.
\<close>

theorem calculateAge_day_before_anniversary_west_of_utc:
  assumes "parseDate e ''2000-06-15'' = Some 961027200000"
      and "- msPerDay \<le> localTZA e 961027200000" and "localTZA e 961027200000 < 0"
      and "localFields e (now e) = (2024, 5, 14)"
  shows "calculateAge e (JStr ''2000-06-15'') = Inr (Some 24)"
proof -
  have b: "localFields e 961027200000 = (2000, 5, 14)"
    using day_west_of_utc [OF assms(2,3)] by (simp add: localFields_def civil_11122)
  show ?thesis
    unfolding calculateAge_string assms(1) by (simp add: b assms(4) Let_def)
qed

theorem calculateAge_west_of_utc_witness:
  "parseDate (iso_env (- 18000000) 1718384400000) ''2000-06-15'' = Some 961027200000
   \<and> localTZA (iso_env (- 18000000) 1718384400000) 961027200000 = - 18000000
   \<and> localFields (iso_env (- 18000000) 1718384400000) (now (iso_env (- 18000000) 1718384400000))
       = (2024, 5, 14)
   \<and> calculateAge (iso_env (- 18000000) 1718384400000) (JStr ''2000-06-15'') = Inr (Some 24)"
proof -
  let ?e = "iso_env (- 18000000) 1718384400000"
  have p: "parseDate ?e ''2000-06-15'' = Some 961027200000" by code_simp
  have z: "localTZA ?e 961027200000 = - 18000000" by code_simp
  have lo: "- msPerDay \<le> localTZA ?e 961027200000" by code_simp
  have hi: "localTZA ?e 961027200000 < 0" by code_simp
  have f: "localFields ?e (now ?e) = (2024, 5, 14)" by code_simp
  from calculateAge_day_before_anniversary_west_of_utc [OF p lo hi f] p z f show ?thesis by blast
qed

text \<open>
  At UTC and east of it the ages are the claimed ones.
\<close>

lemma calculateAge_anniversary_east_of_utc:
  assumes "parseDate e ''2000-06-15'' = Some 961027200000"
      and "0 \<le> localTZA e 961027200000" and "localTZA e 961027200000 < msPerDay"
      and "localFields e (now e) = (2024, m, d)"
  shows "calculateAge e (JStr ''2000-06-15'')
           = Inr (Some (if m < 5 \<or> (m = 5 \<and> d < 15) then 23 else 24))"
proof -
  have b: "localFields e 961027200000 = (2000, 5, 15)"
    using day_east_of_utc [OF assms(2,3)] by (simp add: localFields_def civil_11123)
  show ?thesis
    unfolding calculateAge_string assms(1) by (simp add: b assms(4) Let_def)
qed

text \<open>
  C8, as amended. Take a request whose dob string names a calendar day (it is read as
  midnight UTC of that day, as every string of the form YYYY-MM-DD is), on a server at
  UTC or east of it. If the request is forwarded, that day is not after the current
  local date. If that day is after the current date, nothing is forwarded, and the
  answer is 400 unless a validator threw on the name or the mobile. If that day is the
  current date and name, mobile and action are valid strings, the request is forwarded
  with the age 0.
\<close>

theorem accepted_dob_is_not_after_today:
  assumes "get_prop body ''dob'' = JStr s" and "parseDate e s = Some (D * msPerDay)"
      and "0 \<le> localTZA e (D * msPerDay)" and "localTZA e (D * msPerDay) < msPerDay"
  shows "(snd (api_post e downstream body) \<noteq> None
            \<longrightarrow> date_le (civil_from_days D) (localFields e (now e)))
       \<and> (\<not> date_le (civil_from_days D) (localFields e (now e))
            \<longrightarrow> snd (api_post e downstream body) = None
                \<and> (\<not> isl (validateName (get_prop body ''name''))
                     \<and> \<not> isl (validateMobile (get_prop body ''mobile''))
                     \<longrightarrow> status (fst (api_post e downstream body)) = 400))
       \<and> (civil_from_days D = localFields e (now e) \<and> s \<noteq> []
            \<and> get_prop body ''name'' = JStr n \<and> validateName (JStr n) = Inr True
            \<and> get_prop body ''mobile'' = JStr m \<and> validateMobile (JStr m) = Inr True
            \<and> get_prop body ''action'' = JStr a \<and> httpMethod (toLowerCase a) = Some (send, nm)
            \<longrightarrow> snd (api_post e downstream body)
                  = Some (send postdata_url
                            (JObj [(''name'', JStr (trim n)), (''mobile'', JStr (trim m)),
                                   (''dob'', JStr s), (''age'', JNum (Some 0)),
                                   (''action'', JStr (trim (toLowerCase a))),
                                   (''processedAt'', JStr (toISOString (now e)))])
                            request_config)
                \<and> (status (fst (api_post e downstream body)) = 200
                     \<or> status (fst (api_post e downstream body)) = 502))"
proof -
  let ?B = "civil_from_days D" and ?T = "localFields e (now e)"
  let ?r = "api_post e downstream body"
  have b: "localFields e (D * msPerDay) = ?B"
    using midnight_east_of_utc [OF assms(3,4)] by (simp add: localFields_def)
  note later = negative_age_iff_later_date [OF assms(2), unfolded b]
  have accepted: "date_le ?B ?T" if "snd ?r \<noteq> None"
  proof (cases e downstream body rule: api_post_cases)
    case (rejected msg)
    with that show ?thesis by simp
  next
    case (threw err)
    with that show ?thesis by simp
  next
    case (sent age a' pd send' nm')
    from sent(3) have "\<not> num_lt age (Some 0)" by (simp add: age_out_of_range_def)
    with later [of age] sent(2) show ?thesis by (simp add: assms(1))
  qed
  have rejects: "snd ?r = None
                \<and> (\<not> isl (validateName (get_prop body ''name''))
                     \<and> \<not> isl (validateMobile (get_prop body ''mobile''))
                     \<longrightarrow> status (fst ?r) = 400)"
    if "\<not> date_le ?B ?T"
  proof (cases e downstream body rule: api_post_cases)
    case (rejected msg)
    then show ?thesis by simp
  next
    case (threw err)
    have "\<not> (\<exists>age. calculateAge e (JStr s) = Inr age \<and> \<not> age_out_of_range age)"
      using later that by (auto simp: age_out_of_range_def)
    with threw show ?thesis by (auto simp: assms(1))
  next
    case (sent age a' pd send' nm')
    with accepted that show ?thesis by simp
  qed
  have today: "snd ?r = Some (send postdata_url
                            (JObj [(''name'', JStr (trim n)), (''mobile'', JStr (trim m)),
                                   (''dob'', JStr s), (''age'', JNum (Some 0)),
                                   (''action'', JStr (trim (toLowerCase a))),
                                   (''processedAt'', JStr (toISOString (now e)))])
                            request_config)
                \<and> (status (fst ?r) = 200 \<or> status (fst ?r) = 502)"
    if eq: "?B = ?T" and s: "s \<noteq> []"
      and n: "get_prop body ''name'' = JStr n" "validateName (JStr n) = Inr True"
      and m: "get_prop body ''mobile'' = JStr m" "validateMobile (JStr m) = Inr True"
      and a: "get_prop body ''action'' = JStr a" "httpMethod (toLowerCase a) = Some (send, nm)"
  proof -
    from a(2) have va: "toLowerCase a \<in> set validActions"
      by (auto simp: httpMethod_def validActions_def split: if_splits)
    have age: "calculateAge e (JStr s) = Inr (Some 0)"
      by (rule age_zero_on_same_date [OF assms(2)]) (simp add: b eq)
    have ok: "passes_validation e body"
      using s n m a va valid_texts(1) [OF n(2)] valid_texts(2) [OF m(2)] valid_texts(3) [OF va]
      by (simp add: passes_validation_def assms(1) missing_field_def age call_toLowerCase_def
          age_out_of_range_def num_lt_def num_gt_def)
    show ?thesis
    proof (cases e downstream body rule: api_post_cases)
      case (rejected msg)
      with ok show ?thesis by simp
    next
      case (threw err)
      then show ?thesis
        by (simp add: n m a assms(1) processedData_strings call_toLowerCase_def)
    next
      case (sent age' a' pd send' nm')
      from sent(2) age have age': "age' = Some 0" by (simp add: assms(1))
      from sent(4) have a': "a' = toLowerCase a" by (simp add: a(1) call_toLowerCase_def)
      from sent(7) a(2) a' have send: "send' = send" by simp
      from sent(6) have pd: "pd = [(''name'', JStr (trim n)), (''mobile'', JStr (trim m)),
                                   (''dob'', JStr s), (''age'', JNum (Some 0)),
                                   (''action'', JStr (trim (toLowerCase a))),
                                   (''processedAt'', JStr (toISOString (now e)))]"
        by (simp add: n m a assms(1) age' processedData_strings)
      from sent(8,9) show ?thesis
        by (simp add: pd send RECEIVER_SERVICE_URL_def postdata_url_def)
    qed
  qed
  from accepted rejects today show ?thesis by blast
qed

theorem accepted_dob_witness:
  "parseDate (iso_env 19800000 t_2024_06_14) ''1995-01-01'' = Some (9131 * msPerDay)
   \<and> snd (api_post (iso_env 19800000 t_2024_06_14) always_ok (asha ''1995-01-01'' ''create'')) \<noteq> None
   \<and> date_le (civil_from_days 9131)
              (localFields (iso_env 19800000 t_2024_06_14) (now (iso_env 19800000 t_2024_06_14)))
   \<and> parseDate (iso_env 19800000 t_2024_06_14) ''2024-06-15'' = Some (19889 * msPerDay)
   \<and> \<not> date_le (civil_from_days 19889)
              (localFields (iso_env 19800000 t_2024_06_14) (now (iso_env 19800000 t_2024_06_14)))
   \<and> snd (api_post (iso_env 19800000 t_2024_06_14) always_ok (asha ''2024-06-15'' ''create'')) = None
   \<and> status (fst (api_post (iso_env 19800000 t_2024_06_14) always_ok (asha ''2024-06-15'' ''create''))) = 400
   \<and> parseDate (iso_env 19800000 t_2024_06_14) ''2024-06-14'' = Some (19888 * msPerDay)
   \<and> civil_from_days 19888
       = localFields (iso_env 19800000 t_2024_06_14) (now (iso_env 19800000 t_2024_06_14))
   \<and> snd (api_post (iso_env 19800000 t_2024_06_14) always_ok (asha ''2024-06-14'' ''create''))
       = Some (axios_post postdata_url (JObj (asha_record ''2024-06-14'' (Some 0) ''create''))
                 request_config)
   \<and> status (fst (api_post (iso_env 19800000 t_2024_06_14) always_ok (asha ''2024-06-14'' ''create''))) = 200"
proof -
  let ?e = "iso_env 19800000 t_2024_06_14"
  have lo: "0 \<le> localTZA ?e t" and hi: "localTZA ?e t < msPerDay" for t
    by (simp_all add: iso_env_def msPerDay_def)
  have n: "validateName (JStr ''Asha Rao'') = Inr True" by code_simp
  have m: "validateMobile (JStr ''9876543210'') = Inr True" by code_simp
  have l: "toLowerCase ''create'' = ''create''" by code_simp
  have h: "httpMethod (toLowerCase ''create'') = Some (axios_post, ''POST'')"
    unfolding l by (simp add: httpMethod_def)
  have f: "get_prop (asha d a) ''name'' = JStr ''Asha Rao''"
          "get_prop (asha d a) ''mobile'' = JStr ''9876543210''"
          "get_prop (asha d a) ''dob'' = JStr d"
          "get_prop (asha d a) ''action'' = JStr a" for d a
    by (simp_all add: asha_def)
  have p1: "parseDate ?e ''1995-01-01'' = Some (9131 * msPerDay)" by code_simp
  have s1: "snd (api_post ?e always_ok (asha ''1995-01-01'' ''create'')) \<noteq> None" by code_simp
  have p2: "parseDate ?e ''2024-06-15'' = Some (19889 * msPerDay)" by code_simp
  have l2: "\<not> date_le (civil_from_days 19889) (localFields ?e (now ?e))" by code_simp
  have v2: "\<not> isl (validateName (get_prop (asha ''2024-06-15'' ''create'') ''name''))"
           "\<not> isl (validateMobile (get_prop (asha ''2024-06-15'' ''create'') ''mobile''))"
    by (simp_all add: f n m)
  have p3: "parseDate ?e ''2024-06-14'' = Some (19888 * msPerDay)" by code_simp
  have t3: "civil_from_days 19888 = localFields ?e (now ?e)" by code_simp
  have d3: "''2024-06-14'' \<noteq> []" by simp
  have r3: "[(''name'', JStr (trim ''Asha Rao'')), (''mobile'', JStr (trim ''9876543210'')),
             (''dob'', JStr ''2024-06-14''), (''age'', JNum (Some 0)),
             (''action'', JStr (trim (toLowerCase ''create''))),
             (''processedAt'', JStr (toISOString (now ?e)))]
            = asha_record ''2024-06-14'' (Some 0) ''create''"
    by code_simp
  have st3: "status (fst (api_post ?e always_ok (asha ''2024-06-14'' ''create''))) = 200"
    by code_simp
  note c1 = accepted_dob_is_not_after_today
              [where downstream = always_ok and body = "asha ''1995-01-01'' ''create''",
               OF f(3) p1 lo hi]
  note c2 = accepted_dob_is_not_after_today
              [where downstream = always_ok and body = "asha ''2024-06-15'' ''create''",
               OF f(3) p2 lo hi]
  note c3 = accepted_dob_is_not_after_today
              [where downstream = always_ok and body = "asha ''2024-06-14'' ''create''"
                 and n = "''Asha Rao''" and m = "''9876543210''" and a = "''create''"
                 and send = axios_post and nm = "''POST''",
               OF f(3) p3 lo hi]
  from c1 c2 c3 p1 s1 p2 l2 v2 p3 t3 d3 n m h f st3
  show ?thesis unfolding r3 by blast
qed

text \<open>
  C8 as stated fails: a dob equal to the current date gives the age 0, which is in
  range, and the request is accepted.
\<close>

theorem dob_today_is_accepted:
  "parseDate (iso_env 0 t_2024_06_14) ''2024-06-14'' = Some 1718323200000
   \<and> localFields (iso_env 0 t_2024_06_14) 1718323200000 = (2024, 5, 14)
   \<and> localFields (iso_env 0 t_2024_06_14) (now (iso_env 0 t_2024_06_14)) = (2024, 5, 14)
   \<and> calculateAge (iso_env 0 t_2024_06_14) (JStr ''2024-06-14'') = Inr (Some 0)
   \<and> api_post (iso_env 0 t_2024_06_14) always_ok (asha ''2024-06-14'' ''create'')
       = (forwarded_ok ''CREATE'' ''POST'' (asha_record ''2024-06-14'' (Some 0) ''create'') JNull,
          Some (axios_post postdata_url (JObj (asha_record ''2024-06-14'' (Some 0) ''create'')) request_config))"
  by code_simp

section \<open>Properties of the Persistence API\<close>

lemma trim_Nil [simp]: "trim [] = []"
  by (simp add: trim_def)

lemma dropWhile_trim: "dropWhile js_space (trim s) = trim s"
proof (cases "trim s = []")
  case True
  then show ?thesis by simp
next
  case False
  let ?u = "dropWhile js_space s"
  let ?v = "dropWhile js_space (rev ?u)"
  from False have v: "?v \<noteq> []" by (simp add: trim_def)
  have u: "?u \<noteq> []"
  proof
    assume empty: "?u = []"
    have "?v = []" by (simp only: empty rev.simps dropWhile.simps)
    with v show False by simp
  qed
  have "rev ?u = takeWhile js_space (rev ?u) @ ?v" by simp
  with v have "last (rev ?u) = last ?v" by (metis last_appendR)
  moreover have "last (rev ?u) = hd ?u" using u by (simp add: last_rev)
  moreover have "\<not> js_space (hd ?u)" using u by (rule hd_dropWhile)
  ultimately have "\<not> js_space (hd (rev ?v))" using v by (simp add: hd_rev)
  then show ?thesis by (simp add: trim_def dropWhile_eq_self_iff)
qed

lemma trim_trim [simp]: "trim (trim s) = trim s"
proof -
  have "rev (trim s) = dropWhile js_space (rev (dropWhile js_space s))"
    by (simp add: trim_def)
  then have "dropWhile js_space (rev (trim s)) = rev (trim s)"
    by (metis dropWhile_idem)
  then show ?thesis
    unfolding trim_def [of "trim s"] dropWhile_trim by simp
qed

lemma is_text_cases:
  assumes "is_text v"
  obtains s where "v = JStr s" "trim s \<noteq> []" "s \<noteq> []"
proof (cases v)
  case (JStr s)
  with assms have t: "trim s \<noteq> []" by (simp add: is_text_def)
  then have "s \<noteq> []" by auto
  with JStr t that show thesis by blast
qed (use assms in \<open>simp_all add: is_text_def\<close>)

lemma status_db [simp]:
  "status (db_failure code msg) = code" "status (db_error msg err) = 500"
  "status (db_success code msg act key d) = code"
  by (simp_all add: db_failure_def db_error_def db_success_def)

lemma json_db [simp]:
  "get_prop (json (db_failure code msg)) ''data'' = JUndefined"
  "get_prop (json (db_error msg err)) ''data'' = JUndefined"
  "get_prop (json (db_success code msg act ''data'' d)) ''data'' = doc_json d"
  "get_prop (json (db_failure code msg)) ''action'' = JUndefined"
  "get_prop (json (db_error msg err)) ''action'' = JUndefined"
  "get_prop (json (db_success code msg act ''data'' d)) ''action'' = JStr act"
  by (simp_all add: db_failure_def db_error_def db_success_def get_prop_def)

lemma findOne_Some:
  assumes "findOne k docs = Some i"
  shows "i < length docs \<and> doc_mobile (docs ! i) = k"
  using assms
proof (induction docs arbitrary: i)
  case Nil
  then show ?case by simp
next
  case (Cons d ds)
  show ?case
  proof (cases "doc_mobile d = k")
    case True
    with Cons.prems show ?thesis by simp
  next
    case False
    with Cons.prems obtain j where j: "findOne k ds = Some j" "i = Suc j"
      by auto
    with Cons.IH [OF j(1)] show ?thesis by simp
  qed
qed

text \<open>
  What a storable body gives: the presence check passes, no \<open>trim\<close> throws, and the
  store accepts the fields.
\<close>

lemma storable_present:
  assumes "storable e body"
  shows "\<not> db_missing_field (get_prop body ''name'') (get_prop body ''mobile'') (get_prop body ''dob'')
            (get_prop body ''age'') (get_prop body ''action'')"
proof -
  from assms obtain n where n: "get_prop body ''name'' = JStr n" "n \<noteq> []"
    unfolding storable_def by (auto elim: is_text_cases)
  from assms obtain m where m: "get_prop body ''mobile'' = JStr m" "m \<noteq> []"
    unfolding storable_def by (auto elim: is_text_cases)
  from assms obtain a where a: "get_prop body ''action'' = JStr a" "a \<noteq> []"
    unfolding storable_def by (auto elim: is_text_cases)
  from assms obtain d where d: "get_prop body ''dob'' = JStr d" "d \<noteq> []"
    unfolding storable_def by (auto split: jsval.splits)
  from assms have "get_prop body ''age'' \<noteq> JUndefined"
    unfolding storable_def by simp
  with n m a d show ?thesis by (simp add: db_missing_field_def)
qed

lemma storable_new_fields:
  assumes "storable e body"
  obtains c where
    "new_fields e (get_prop body ''name'') (get_prop body ''mobile'') (get_prop body ''dob'')
       (get_prop body ''age'') (get_prop body ''action'') (get_prop body ''processedAt'') = Inr c"
    "invalid_paths c = []"
proof -
  from assms obtain n where n: "get_prop body ''name'' = JStr n" "trim n \<noteq> []"
    unfolding storable_def by (auto elim: is_text_cases)
  from assms obtain m where m: "get_prop body ''mobile'' = JStr m" "trim m \<noteq> []"
    unfolding storable_def by (auto elim: is_text_cases)
  from assms obtain a where a: "get_prop body ''action'' = JStr a" "trim a \<noteq> []"
    unfolding storable_def by (auto elim: is_text_cases)
  from assms obtain d where d: "get_prop body ''dob'' = JStr d" "d \<noteq> []"
    unfolding storable_def by (auto split: jsval.splits)
  from assms obtain g where g: "parseInt (get_prop body ''age'') = Inr (Some g)"
    unfolding storable_def by (auto split: sum.splits option.splits)
  from assms obtain p where p: "processedAt_value e (get_prop body ''processedAt'') = Inr (Some p)"
    unfolding storable_def by (auto split: sum.splits option.splits)
  let ?c = "\<lparr>c_name = trim n, c_mobile = trim m, c_dob = JStr d, c_age = Some g,
             c_action = trim a, c_processedAt = Some p\<rparr>"
  have "new_fields e (get_prop body ''name'') (get_prop body ''mobile'') (get_prop body ''dob'')
       (get_prop body ''age'') (get_prop body ''action'') (get_prop body ''processedAt'') = Inr ?c"
    by (simp add: new_fields_def call_trim_def n m a d g p)
  moreover have "invalid_paths ?c = []"
    using n m a d by (simp add: invalid_paths_def castString_def)
  ultimately show thesis by (rule that)
qed

subsection \<open>Upsert\<close>

text \<open>
  C3. When no persisted record has the mobile of the request, the upsert does what the
  insert does: the same resulting collection (so the same coercion and the same stored
  record), the same status and the same returned record. Its response never reports an
  update; for a storable record the status is 201, the reported action is
  \<open>CREATE (from UPDATE)\<close>, and one document is added.
\<close>

theorem upsert_without_match_is_insert:
  assumes "no_record_for docs (get_prop body ''mobile'')"
  shows "snd (postdata_put e oid docs body) = snd (postdata_post e oid docs body)
       \<and> status (fst (postdata_put e oid docs body)) = status (fst (postdata_post e oid docs body))
       \<and> get_prop (json (fst (postdata_put e oid docs body))) ''data''
           = get_prop (json (fst (postdata_post e oid docs body))) ''data''
       \<and> get_prop (json (fst (postdata_put e oid docs body))) ''action'' \<noteq> JStr ''UPDATE''
       \<and> (storable e body \<longrightarrow>
            status (fst (postdata_put e oid docs body)) = 201
            \<and> get_prop (json (fst (postdata_put e oid docs body))) ''action'' = JStr ''CREATE (from UPDATE)''
            \<and> length (snd (postdata_put e oid docs body)) = Suc (length docs))"
proof -
  let ?name = "get_prop body ''name''" and ?mobile = "get_prop body ''mobile''"
  let ?dob = "get_prop body ''dob''" and ?age = "get_prop body ''age''"
  let ?action = "get_prop body ''action''" and ?processedAt = "get_prop body ''processedAt''"
  show ?thesis
  proof (cases "db_missing_field ?name ?mobile ?dob ?age ?action")
    case True
    then have "postdata_put e oid docs body
                 = (db_failure 400 ''All fields (name, mobile, dob, age, action) are required for update'', docs)"
      and "postdata_post e oid docs body
                 = (db_failure 400 ''All fields (name, mobile, dob, age, action) are required'', docs)"
      by (simp_all add: postdata_put_def postdata_post_def Let_def)
    with True storable_present [of e body] show ?thesis by auto
  next
    case present: False
    show ?thesis
    proof (cases "call_trim ''mobile'' ?mobile")
      case (Inl err)
      then have nf: "\<exists>err'. new_fields e ?name ?mobile ?dob ?age ?action ?processedAt = Inl err'"
        by (auto simp: new_fields_def split: sum.splits)
      from Inl have "\<not> is_text ?mobile"
        by (auto simp: call_trim_def is_text_def split: jsval.splits)
      then have ns: "\<not> storable e body" by (simp add: storable_def)
      from Inl present have "postdata_put e oid docs body
          = (db_error ''Failed to update data in MongoDB'' (error_message err), docs)"
        by (simp add: postdata_put_def Let_def)
      moreover from nf present obtain err' where
        "postdata_post e oid docs body
           = (db_error ''Failed to create data in MongoDB'' (error_message err'), docs)"
        by (auto simp: postdata_post_def Let_def)
      ultimately show ?thesis using ns by simp
    next
      case (Inr key)
      then obtain m where m: "?mobile = JStr m" "key = trim m"
        by (auto simp: call_trim_def split: jsval.splits)
      with assms have none: "findOne key docs = None"
        by (simp add: no_record_for_def)
      show ?thesis
      proof (cases "new_fields e ?name ?mobile ?dob ?age ?action ?processedAt")
        case (Inl err)
        with present Inr none have "postdata_put e oid docs body
            = (db_error ''Failed to update data in MongoDB'' (error_message err), docs)"
          and "postdata_post e oid docs body
            = (db_error ''Failed to create data in MongoDB'' (error_message err), docs)"
          by (simp_all add: postdata_put_def postdata_post_def Let_def)
        moreover from Inl have "\<not> storable e body"
          using storable_new_fields [of e body] by auto
        ultimately show ?thesis by simp
      next
        case c: (Inr c)
        show ?thesis
        proof (cases "save_new e oid docs c")
          case (Inl paths)
          with present Inr none c have "postdata_put e oid docs body
              = (db_error ''Failed to update data in MongoDB'' (validationText e paths), docs)"
            and "postdata_post e oid docs body
              = (db_error ''Failed to create data in MongoDB'' (validationText e paths), docs)"
            by (simp_all add: postdata_put_def postdata_post_def Let_def)
          moreover from Inl c have "\<not> storable e body"
            using storable_new_fields [of e body] by (auto simp: save_new_def Let_def split: if_splits)
          ultimately show ?thesis by simp
        next
          case saved: (Inr r)
          obtain d docs' where r: "r = (d, docs')" by (cases r)
          from saved r have len: "length docs' = Suc (length docs)"
            by (auto simp: save_new_def Let_def split: if_splits)
          from present Inr none c saved r
          have "postdata_put e oid docs body
                  = (db_success 201 ''Data created (record not found for update) in MongoDB successfully''
                       ''CREATE (from UPDATE)'' ''data'' d, docs')"
            and "postdata_post e oid docs body
                  = (db_success 201 ''Data created in MongoDB successfully'' ''CREATE'' ''data'' d, docs')"
            by (simp_all add: postdata_put_def postdata_post_def Let_def)
          with len show ?thesis by simp
        qed
      qed
    qed
  qed
qed

theorem upsert_without_match_witness:
  "no_record_for [ravi_doc] (get_prop (asha_body '' Asha Rao '' (JStr ''29'')) ''mobile'')
   \<and> storable (iso_env 0 t_2024_06_15) (asha_body '' Asha Rao '' (JStr ''29''))
   \<and> snd (postdata_put (iso_env 0 t_2024_06_15) 1 [ravi_doc] (asha_body '' Asha Rao '' (JStr ''29'')))
       = snd (postdata_post (iso_env 0 t_2024_06_15) 1 [ravi_doc] (asha_body '' Asha Rao '' (JStr ''29'')))
   \<and> snd (postdata_post (iso_env 0 t_2024_06_15) 1 [ravi_doc] (asha_body '' Asha Rao '' (JStr ''29'')))
       = [ravi_doc, asha_doc\<lparr>createdAt := t_2024_06_15, updatedAt := t_2024_06_15\<rparr>]
   \<and> status (fst (postdata_put (iso_env 0 t_2024_06_15) 1 [ravi_doc] (asha_body '' Asha Rao '' (JStr ''29'')))) = 201
   \<and> get_prop (json (fst (postdata_put (iso_env 0 t_2024_06_15) 1 [ravi_doc]
                             (asha_body '' Asha Rao '' (JStr ''29''))))) ''action''
       = JStr ''CREATE (from UPDATE)''"
proof -
  let ?e = "iso_env 0 t_2024_06_15" and ?body = "asha_body '' Asha Rao '' (JStr ''29'')"
  have n: "no_record_for [ravi_doc] (get_prop ?body ''mobile'')" by code_simp
  have s: "storable ?e ?body" by code_simp
  have p: "snd (postdata_post ?e 1 [ravi_doc] ?body)
             = [ravi_doc, asha_doc\<lparr>createdAt := t_2024_06_15, updatedAt := t_2024_06_15\<rparr>]"
    by code_simp
  from upsert_without_match_is_insert [OF n, of ?e 1] n s p show ?thesis by blast
qed

text \<open>
  C4, as amended. When a persisted record has the mobile of a storable request, the
  upsert answers 200 and changes that document only: name, dob, age and action are
  overwritten, processedAt is set to the given date (or the clock), and mobile, identifier
  and creation timestamp stay. The modification timestamp is set to the clock when one of
  the five values changed; when none did, the collection is left as it was.
\<close>

theorem upsert_on_match_overwrites:
  assumes "storable e body"
      and "get_prop body ''mobile'' = JStr m" and "findOne (trim m) docs = Some i"
      and "get_prop body ''name'' = JStr n" and "get_prop body ''dob'' = JStr d"
      and "get_prop body ''action'' = JStr a"
      and "parseInt (get_prop body ''age'') = Inr (Some g)"
      and "processedAt_value e (get_prop body ''processedAt'') = Inr (Some p)"
  shows "status (fst (postdata_put e oid docs body)) = 200
       \<and> length (snd (postdata_put e oid docs body)) = length docs
       \<and> (\<forall>j < length docs. j \<noteq> i \<longrightarrow> snd (postdata_put e oid docs body) ! j = docs ! j)
       \<and> doc_name (snd (postdata_put e oid docs body) ! i) = trim n
       \<and> doc_dob (snd (postdata_put e oid docs body) ! i) = d
       \<and> doc_age (snd (postdata_put e oid docs body) ! i) = g
       \<and> doc_action (snd (postdata_put e oid docs body) ! i) = trim a
       \<and> doc_processedAt (snd (postdata_put e oid docs body) ! i) = p
       \<and> doc_mobile (snd (postdata_put e oid docs body) ! i) = doc_mobile (docs ! i)
       \<and> doc_id (snd (postdata_put e oid docs body) ! i) = doc_id (docs ! i)
       \<and> createdAt (snd (postdata_put e oid docs body) ! i) = createdAt (docs ! i)
       \<and> (doc_name (docs ! i) \<noteq> trim n \<or> doc_dob (docs ! i) \<noteq> d \<or> doc_age (docs ! i) \<noteq> g
            \<or> doc_action (docs ! i) \<noteq> trim a \<or> doc_processedAt (docs ! i) \<noteq> p
          \<longrightarrow> updatedAt (snd (postdata_put e oid docs body) ! i) = now e)
       \<and> (doc_name (docs ! i) = trim n \<and> doc_dob (docs ! i) = d \<and> doc_age (docs ! i) = g
            \<and> doc_action (docs ! i) = trim a \<and> doc_processedAt (docs ! i) = p
          \<longrightarrow> snd (postdata_put e oid docs body) = docs)"
proof -
  let ?old = "docs ! i"
  let ?c = "\<lparr>c_name = trim n, c_mobile = doc_mobile ?old, c_dob = JStr d, c_age = Some g,
             c_action = trim a, c_processedAt = Some p\<rparr>"
  let ?d = "?old\<lparr>doc_name := trim n, doc_dob := d, doc_age := g, doc_action := trim a,
                 doc_processedAt := p\<rparr>"
  let ?d' = "if ?d = ?old then ?old else ?d\<lparr>updatedAt := now e\<rparr>"
  from findOne_Some [OF assms(3)] have i: "i < length docs" and key: "doc_mobile ?old = trim m"
    by simp_all
  from assms(1,2,4,5,6) have nonblank: "trim n \<noteq> []" "trim m \<noteq> []" "trim a \<noteq> []" "d \<noteq> []"
    by (simp_all add: storable_def is_text_def)
  have present: "\<not> db_missing_field (get_prop body ''name'') (get_prop body ''mobile'')
       (get_prop body ''dob'') (get_prop body ''age'') (get_prop body ''action'')"
    by (rule storable_present [OF assms(1)])
  have af: "assigned_fields e ?old (get_prop body ''name'') (get_prop body ''dob'')
       (get_prop body ''age'') (get_prop body ''action'') (get_prop body ''processedAt'') = Inr ?c"
    by (simp add: assigned_fields_def call_trim_def assms)
  have valid: "invalid_paths ?c = []"
    using nonblank by (simp add: invalid_paths_def castString_def key)
  have sv: "save_existing e docs i ?c = Inr (?d', docs[i := ?d'])"
    by (simp add: save_existing_def valid castString_def Let_def)
  have r: "postdata_put e oid docs body
           = (db_success 200 ''Data updated in MongoDB successfully'' ''UPDATE'' ''data'' ?d', docs[i := ?d'])"
    using present by (simp add: postdata_put_def Let_def assms(2,3) call_trim_def af sv)
  have at_i: "snd (postdata_put e oid docs body) ! i = ?d'"
    using i by (simp add: r)
  have same: "?d = ?old \<longleftrightarrow> doc_name ?old = trim n \<and> doc_dob ?old = d \<and> doc_age ?old = g
            \<and> doc_action ?old = trim a \<and> doc_processedAt ?old = p"
    by (cases ?old) auto
  have unchanged: "snd (postdata_put e oid docs body) = docs" if "?d = ?old"
    using that by (simp add: r)
  show ?thesis
    unfolding at_i using i same unchanged by (auto simp: r)
qed

theorem upsert_on_match_witness:
  "storable (iso_env 0 t_2024_06_15) (asha_body ''Asha R'' (JNum (Some 30)))
   \<and> findOne (trim ''9876543210'') [ravi_doc, asha_doc] = Some 1
   \<and> updatedAt ([ravi_doc, asha_doc] ! 1) < now (iso_env 0 t_2024_06_15)
   \<and> status (fst (postdata_put (iso_env 0 t_2024_06_15) 2 [ravi_doc, asha_doc]
                 (asha_body ''Asha R'' (JNum (Some 30))))) = 200
   \<and> snd (postdata_put (iso_env 0 t_2024_06_15) 2 [ravi_doc, asha_doc]
            (asha_body ''Asha R'' (JNum (Some 30))))
       = [ravi_doc, asha_doc\<lparr>doc_name := ''Asha R'', doc_age := 30, updatedAt := t_2024_06_15\<rparr>]
   \<and> doc_mobile (snd (postdata_put (iso_env 0 t_2024_06_15) 2 [ravi_doc, asha_doc]
                        (asha_body ''Asha R'' (JNum (Some 30)))) ! 1) = doc_mobile ([ravi_doc, asha_doc] ! 1)
   \<and> updatedAt (snd (postdata_put (iso_env 0 t_2024_06_15) 2 [ravi_doc, asha_doc]
                        (asha_body ''Asha R'' (JNum (Some 30)))) ! 1) = now (iso_env 0 t_2024_06_15)"
proof -
  let ?e = "iso_env 0 t_2024_06_15" and ?body = "asha_body ''Asha R'' (JNum (Some 30))"
  let ?docs = "[ravi_doc, asha_doc]"
  have s: "storable ?e ?body" by code_simp
  have m: "get_prop ?body ''mobile'' = JStr ''9876543210''" by code_simp
  have f: "findOne (trim ''9876543210'') ?docs = Some 1" by code_simp
  have n: "get_prop ?body ''name'' = JStr ''Asha R''" by code_simp
  have d: "get_prop ?body ''dob'' = JStr ''1995-01-01''" by code_simp
  have a: "get_prop ?body ''action'' = JStr ''update''" by code_simp
  have g: "parseInt (get_prop ?body ''age'') = Inr (Some 30)" by code_simp
  have p: "processedAt_value ?e (get_prop ?body ''processedAt'') = Inr (Some 1718359200000)"
    by code_simp
  have u: "updatedAt (?docs ! 1) < now ?e" by code_simp
  have c: "doc_name (?docs ! 1) \<noteq> trim ''Asha R''" by code_simp
  have r: "snd (postdata_put ?e 2 ?docs ?body)
             = [ravi_doc, asha_doc\<lparr>doc_name := ''Asha R'', doc_age := 30, updatedAt := t_2024_06_15\<rparr>]"
    by code_simp
  from upsert_on_match_overwrites [OF s m f n d a g p, of 2] s f u c r show ?thesis by blast
qed

text \<open>
  C4 as stated fails in its last part: an upsert that repeats the stored values, a day
  later, leaves the modification timestamp where it was.
\<close>

theorem upsert_of_stored_values_keeps_timestamp:
  "storable (iso_env 0 t_2024_06_15) (asha_body ''Asha Rao'' (JNum (Some 29)))
   \<and> findOne (trim ''9876543210'') [asha_doc] = Some 0
   \<and> updatedAt asha_doc = t_2024_06_14
   \<and> t_2024_06_14 < now (iso_env 0 t_2024_06_15)
   \<and> postdata_put (iso_env 0 t_2024_06_15) 2 [asha_doc] (asha_body ''Asha Rao'' (JNum (Some 29)))
       = (db_success 200 ''Data updated in MongoDB successfully'' ''UPDATE'' ''data'' asha_doc,
          [asha_doc])
   \<and> updatedAt (snd (postdata_put (iso_env 0 t_2024_06_15) 2 [asha_doc]
                        (asha_body ''Asha Rao'' (JNum (Some 29)))) ! 0) = t_2024_06_14"
  by code_simp

subsection \<open>Delete\<close>

text \<open>
  C5. A delete whose mobile (a string that is not empty) matches no persisted record
  answers 404, and the collection is unchanged.
\<close>

theorem delete_without_match_is_not_found:
  assumes "get_prop body ''mobile'' = JStr m" and "m \<noteq> []" and "findOne (trim m) docs = None"
  shows "status (fst (postdata_delete docs body)) = 404 \<and> snd (postdata_delete docs body) = docs"
  using assms
  by (simp add: postdata_delete_def Let_def call_trim_def findOneAndDelete_def)

theorem delete_without_match_witness:
  "get_prop [(''mobile'', JStr ''9876543210'')] ''mobile'' = JStr ''9876543210''
   \<and> findOne (trim ''9876543210'') [ravi_doc] = None
   \<and> status (fst (postdata_delete [ravi_doc] [(''mobile'', JStr ''9876543210'')])) = 404
   \<and> snd (postdata_delete [ravi_doc] [(''mobile'', JStr ''9876543210'')]) = [ravi_doc]"
proof -
  have m: "get_prop [(''mobile'', JStr ''9876543210'')] ''mobile'' = JStr ''9876543210''"
    by code_simp
  have n: "''9876543210'' \<noteq> []" by simp
  have f: "findOne (trim ''9876543210'') [ravi_doc] = None" by code_simp
  from delete_without_match_is_not_found [OF m n f] m f show ?thesis by blast
qed

subsection \<open>Insert\<close>

lemma invalid_age: "c_age c = None \<Longrightarrow> invalid_paths c \<noteq> []"
  by (simp add: invalid_paths_def)

lemma new_fields_age:
  "new_fields e name mobile dob age action processedAt = Inr c \<Longrightarrow> parseInt age = Inr (c_age c)"
  by (auto simp: new_fields_def split: sum.splits)

text \<open>
  C10. An insert whose age is present but does not begin with an integer passes the
  presence check, \<open>parseInt\<close> gives \<open>NaN\<close>, the store refuses the record, and the
  answer is 500 with the collection unchanged. The witness is the age \<open>null\<close>.
\<close>

theorem non_numeric_age_is_internal_error:
  assumes "\<not> db_missing_field (get_prop body ''name'') (get_prop body ''mobile'')
              (get_prop body ''dob'') (get_prop body ''age'') (get_prop body ''action'')"
      and "parseInt (get_prop body ''age'') = Inr None"
  shows "status (fst (postdata_post e oid docs body)) = 500 \<and> snd (postdata_post e oid docs body) = docs"
proof (cases "new_fields e (get_prop body ''name'') (get_prop body ''mobile'') (get_prop body ''dob'')
                (get_prop body ''age'') (get_prop body ''action'') (get_prop body ''processedAt'')")
  case (Inl err)
  with assms(1) show ?thesis by (simp add: postdata_post_def Let_def)
next
  case (Inr c)
  from new_fields_age [OF Inr] assms(2) have "invalid_paths c \<noteq> []"
    by (simp add: invalid_age)
  then have "save_new e oid docs c = Inl (invalid_paths c)"
    by (simp add: save_new_def)
  with assms(1) Inr show ?thesis by (simp add: postdata_post_def Let_def)
qed

theorem non_numeric_age_witness:
  "get_prop (asha_body ''Asha Rao'' JNull) ''age'' = JNull
   \<and> \<not> db_missing_field (get_prop (asha_body ''Asha Rao'' JNull) ''name'')
          (get_prop (asha_body ''Asha Rao'' JNull) ''mobile'') (get_prop (asha_body ''Asha Rao'' JNull) ''dob'')
          (get_prop (asha_body ''Asha Rao'' JNull) ''age'') (get_prop (asha_body ''Asha Rao'' JNull) ''action'')
   \<and> parseInt (get_prop (asha_body ''Asha Rao'' JNull) ''age'') = Inr None
   \<and> status (fst (postdata_post (iso_env 0 t_2024_06_15) 1 [ravi_doc] (asha_body ''Asha Rao'' JNull))) = 500
   \<and> snd (postdata_post (iso_env 0 t_2024_06_15) 1 [ravi_doc] (asha_body ''Asha Rao'' JNull)) = [ravi_doc]"
proof -
  let ?body = "asha_body ''Asha Rao'' JNull"
  have g: "get_prop ?body ''age'' = JNull" by code_simp
  have p: "\<not> db_missing_field (get_prop ?body ''name'') (get_prop ?body ''mobile'')
              (get_prop ?body ''dob'') (get_prop ?body ''age'') (get_prop ?body ''action'')"
    by code_simp
  have n: "parseInt (get_prop ?body ''age'') = Inr None" by code_simp
  from non_numeric_age_is_internal_error [OF p n, of "iso_env 0 t_2024_06_15" 1 "[ravi_doc]"] g p n
  show ?thesis by blast
qed

text \<open>
  The same for a string that is not a number.
\<close>

lemma non_numeric_string_age:
  "parseInt (JStr ''abc'') = Inr None
   \<and> status (fst (postdata_post (iso_env 0 t_2024_06_15) 1 [] (asha_body ''Asha Rao'' (JStr ''abc'')))) = 500
   \<and> snd (postdata_post (iso_env 0 t_2024_06_15) 1 [] (asha_body ''Asha Rao'' (JStr ''abc''))) = []"
  by code_simp

end
